theory Spec2Isabelle
  imports Main "HOL-Library.AList"
begin

section \<open>JavaScript values\<close>

text \<open>
  The values that travel through \<^verbatim>\<open>aiTask\<close>: request fields, payloads, descriptors and
  schemas. Objects are association lists in property order (\<^verbatim>\<open>JSON.stringify\<close> and
  \<^verbatim>\<open>for ... in\<close> follow that order); a number carries its canonical decimal text, the
  string that \<^verbatim>\<open>String(n)\<close> yields, which is all the program ever does with the numbers
  of a request; a function value is named by an index and its behaviour is given by the
  world (below). Values are trees: an object reachable twice is two equal values.
\<close>

datatype jsval =
    JUndefined
  | JNull
  | JBool bool
  | JNum string
  | JStr string
  | JArr "jsval list"
  | JObj "(string \<times> jsval) list"
  | JFun nat

fun truthy :: "jsval \<Rightarrow> bool" where
  "truthy JUndefined = False"
| "truthy JNull = False"
| "truthy (JBool b) = b"
| "truthy (JNum s) = (s \<noteq> ''0'' \<and> s \<noteq> ''NaN'')"
| "truthy (JStr s) = (s \<noteq> [])"
| "truthy (JArr xs) = True"
| "truthy (JObj kvs) = True"
| "truthy (JFun f) = True"

fun typeof :: "jsval \<Rightarrow> string" where
  "typeof JUndefined = ''undefined''"
| "typeof JNull = ''object''"
| "typeof (JBool b) = ''boolean''"
| "typeof (JNum s) = ''number''"
| "typeof (JStr s) = ''string''"
| "typeof (JArr xs) = ''object''"
| "typeof (JObj kvs) = ''object''"
| "typeof (JFun f) = ''function''"

text \<open>Reading a property of a value that is neither null nor undefined (those throw, and
  every caller below checks for them first). Only objects have properties in the model.\<close>

fun get_prop :: "jsval \<Rightarrow> string \<Rightarrow> jsval" where
  "get_prop (JObj kvs) k = (case map_of kvs k of Some v \<Rightarrow> v | None \<Rightarrow> JUndefined)"
| "get_prop v k = JUndefined"

definition nullish :: "jsval \<Rightarrow> bool" where
  "nullish v = (v = JNull \<or> v = JUndefined)"

text \<open>A destructuring default \<^verbatim>\<open>{ x = d }\<close>: it applies to undefined only.\<close>

definition default_to :: "jsval \<Rightarrow> jsval \<Rightarrow> jsval" where
  "default_to d v = (if v = JUndefined then d else v)"

text \<open>What a \<^verbatim>\<open>throw\<close> carries. A backend SDK error has an optional numeric
  \<^verbatim>\<open>status\<close> and an optional \<^verbatim>\<open>errorDetails\<close> list, of which the program reads
  \<^verbatim>\<open>'@type'\<close> and \<^verbatim>\<open>retryDelay\<close>.\<close>

datatype thrown =
    FetchError "int option" "(string \<times> string option) list option"
  | TypeError
  | SyntaxError
  | Error string
  | ThrownValue jsval

fun status :: "thrown \<Rightarrow> int option" where
  "status (FetchError s d) = s"
| "status e = None"

fun errorDetails :: "thrown \<Rightarrow> (string \<times> string option) list option" where
  "errorDetails (FetchError s d) = d"
| "errorDetails e = None"

text \<open>How a call ends: it returns, it throws, or the fuel that bounds the recursion of the
  model ran out (the program's retry loops have no bound of their own).\<close>

datatype 'a outcome = Returned 'a | Thrown thrown | OutOfFuel

section \<open>Strings\<close>

definition is_space :: "char \<Rightarrow> bool" where
  "is_space c = (c \<in> set [CHR 0x20, CHR 0x09, CHR 0x0A, CHR 0x0B, CHR 0x0C, CHR 0x0D])"

definition trim :: "string \<Rightarrow> string" where
  "trim s = rev (dropWhile is_space (rev (dropWhile is_space s)))"

fun starts_with :: "string \<Rightarrow> string \<Rightarrow> bool" where
  "starts_with [] s = True"
| "starts_with (p # ps) [] = False"
| "starts_with (p # ps) (c # cs) = (p = c \<and> starts_with ps cs)"

text \<open>\<^verbatim>\<open>s.includes(sub)\<close>.\<close>

fun str_includes :: "string \<Rightarrow> string \<Rightarrow> bool" where
  "str_includes sub [] = (sub = [])"
| "str_includes sub (c # cs) = (starts_with sub (c # cs) \<or> str_includes sub cs)"

text \<open>\<^verbatim>\<open>s.replace(sub, rep)\<close> with a string pattern: the first occurrence only.\<close>

fun replace_first :: "string \<Rightarrow> string \<Rightarrow> string \<Rightarrow> string" where
  "replace_first sub rep [] = (if sub = [] then rep else [])"
| "replace_first sub rep (c # cs) =
     (if starts_with sub (c # cs) then rep @ drop (length sub) (c # cs)
      else c # replace_first sub rep cs)"

text \<open>\<^verbatim>\<open>s.split(c)\<close> with a one-character separator.\<close>

fun split_on :: "char \<Rightarrow> string \<Rightarrow> string list" where
  "split_on sep [] = [[]]"
| "split_on sep (c # cs) =
     (if c = sep then [] # split_on sep cs
      else (case split_on sep cs of p # ps \<Rightarrow> (c # p) # ps | [] \<Rightarrow> [[c]]))"

definition toLowerCase :: "string \<Rightarrow> string" where
  "toLowerCase s =
     map (\<lambda>c. if 65 \<le> (of_char c :: nat) \<and> (of_char c :: nat) \<le> 90
               then char_of ((of_char c :: nat) + 32) else c) s"

fun join :: "string \<Rightarrow> string list \<Rightarrow> string" where
  "join sep [] = []"
| "join sep [x] = x"
| "join sep (x # y # ys) = x @ sep @ join sep (y # ys)"

fun show_nat :: "nat \<Rightarrow> string" where
  "show_nat n =
     (if n < 10 then [''0123456789'' ! n]
      else show_nat (n div 10) @ [''0123456789'' ! (n mod 10)])"

declare show_nat.simps [simp del]

text \<open>\<^verbatim>\<open>parseInt(s, 10)\<close>: leading white space, an optional sign, then the longest run
  of digits; \<open>None\<close> is NaN.\<close>

definition is_digit :: "char \<Rightarrow> bool" where
  "is_digit c = (48 \<le> (of_char c :: nat) \<and> (of_char c :: nat) \<le> 57)"

fun digits_value :: "nat \<Rightarrow> string \<Rightarrow> nat" where
  "digits_value acc [] = acc"
| "digits_value acc (c # cs) = digits_value (10 * acc + ((of_char c :: nat) - 48)) cs"

definition parseInt :: "string \<Rightarrow> int option" where
  "parseInt s =
     (let t = dropWhile is_space s;
          neg = (t \<noteq> [] \<and> hd t = CHR ''-'');
          u = (if t \<noteq> [] \<and> (hd t = CHR ''-'' \<or> hd t = CHR ''+'') then tl t else t);
          ds = takeWhile is_digit u
      in if ds = [] then None
         else Some (if neg then - int (digits_value 0 ds) else int (digits_value 0 ds)))"

subsection \<open>String conversion and JSON.stringify\<close>

fun js_toString :: "jsval \<Rightarrow> string" and js_toString_items :: "jsval list \<Rightarrow> string list" where
  "js_toString JUndefined = ''undefined''"
| "js_toString JNull = ''null''"
| "js_toString (JBool b) = (if b then ''true'' else ''false'')"
| "js_toString (JNum s) = s"
| "js_toString (JStr s) = s"
| "js_toString (JArr xs) = join '','' (js_toString_items xs)"
| "js_toString (JObj kvs) = ''[object Object]''"
| "js_toString (JFun f) = ''function () { [native code] }''"
| "js_toString_items [] = []"
| "js_toString_items (x # xs) =
     (if x = JNull \<or> x = JUndefined then [] else js_toString x) # js_toString_items xs"

definition quote_char :: "char \<Rightarrow> string" where
  "quote_char c =
     (if c = CHR 0x22 then [CHR 0x5C, CHR 0x22]
      else if c = CHR 0x5C then [CHR 0x5C, CHR 0x5C]
      else if c = CHR 0x08 then [CHR 0x5C, CHR ''b'']
      else if c = CHR 0x0C then [CHR 0x5C, CHR ''f'']
      else if c = CHR 0x0A then [CHR 0x5C, CHR ''n'']
      else if c = CHR 0x0D then [CHR 0x5C, CHR ''r'']
      else if c = CHR 0x09 then [CHR 0x5C, CHR ''t'']
      else if (of_char c :: nat) < 32
        then [CHR 0x5C, CHR ''u'', CHR ''0'', CHR ''0'',
              ''0123456789abcdef'' ! ((of_char c :: nat) div 16),
              ''0123456789abcdef'' ! ((of_char c :: nat) mod 16)]
      else [c])"

definition quote :: "string \<Rightarrow> string" where
  "quote s = [CHR 0x22] @ concat (map quote_char s) @ [CHR 0x22]"

text \<open>
  \<^verbatim>\<open>JSON.stringify(v, null, gap)\<close>; \<open>gap = []\<close> is the compact form. \<open>None\<close> is the
  result undefined (for undefined and functions); such a property is left out of an
  object and printed as null in an array.
\<close>

definition wrap :: "string \<Rightarrow> string \<Rightarrow> string \<Rightarrow> string \<Rightarrow> string list \<Rightarrow> string" where
  "wrap opening closing gap ind partial =
     (if partial = [] then opening @ closing
      else if gap = [] then opening @ join '','' partial @ closing
      else opening @ [CHR 0x0A] @ ind @ gap
           @ join ('','' @ [CHR 0x0A] @ ind @ gap) partial
           @ [CHR 0x0A] @ ind @ closing)"

fun stringify :: "string \<Rightarrow> string \<Rightarrow> jsval \<Rightarrow> string option"
  and stringify_items :: "string \<Rightarrow> string \<Rightarrow> jsval list \<Rightarrow> string list"
  and stringify_props :: "string \<Rightarrow> string \<Rightarrow> (string \<times> jsval) list \<Rightarrow> string list" where
  "stringify gap ind JUndefined = None"
| "stringify gap ind (JFun f) = None"
| "stringify gap ind JNull = Some ''null''"
| "stringify gap ind (JBool b) = Some (if b then ''true'' else ''false'')"
| "stringify gap ind (JNum s) = Some (if s = ''NaN'' \<or> s = ''Infinity'' \<or> s = ''-Infinity'' then ''null'' else s)"
| "stringify gap ind (JStr s) = Some (quote s)"
| "stringify gap ind (JArr xs) = Some (wrap ''['' '']'' gap ind (stringify_items gap (ind @ gap) xs))"
| "stringify gap ind (JObj kvs) = Some (wrap ''{'' ''}'' gap ind (stringify_props gap (ind @ gap) kvs))"
| "stringify_items gap ind [] = []"
| "stringify_items gap ind (x # xs) =
     (case stringify gap ind x of None \<Rightarrow> ''null'' | Some s \<Rightarrow> s) # stringify_items gap ind xs"
| "stringify_props gap ind [] = []"
| "stringify_props gap ind ((k, v) # kvs) =
     (case stringify gap ind v of
        None \<Rightarrow> stringify_props gap ind kvs
      | Some s \<Rightarrow> (quote k @ '':'' @ (if gap = [] then [] else '' '') @ s) # stringify_props gap ind kvs)"

definition JSON_stringify :: "jsval \<Rightarrow> string option" where
  "JSON_stringify v = stringify [] [] v"

definition JSON_stringify2 :: "jsval \<Rightarrow> string option" where
  "JSON_stringify2 v = stringify ''  '' [] v"

text \<open>A template literal \<^verbatim>\<open>${x}\<close> of a value that may be undefined.\<close>

definition interpolate :: "string option \<Rightarrow> string" where
  "interpolate s = (case s of None \<Rightarrow> ''undefined'' | Some t \<Rightarrow> t)"

section \<open>buildPrompt (aiTask.js)\<close>

definition delimiter :: string where
  "delimiter = ''```''"

definition hasInput :: "jsval \<Rightarrow> bool" where
  "hasInput inputs =
     (truthy inputs \<and>
      (case inputs of
         JArr xs \<Rightarrow> xs \<noteq> []
       | JObj kvs \<Rightarrow> kvs \<noteq> []
       | JStr s \<Rightarrow> s \<noteq> []
       | _ \<Rightarrow> False))"

definition buildPrompt :: "jsval \<Rightarrow> jsval \<Rightarrow> jsval \<Rightarrow> bool \<Rightarrow> string" where
  "buildPrompt task inputs outputs isJSON =
     (let nl = [CHR 0x0A];
          p1 = (if truthy task
                then ''TASK:'' @ nl @ delimiter @ nl @ js_toString task @ nl @ delimiter @ nl @ nl
                else []);
          p2 = (if truthy outputs
                then ''OUTPUT WITH FOLLOWING '' @ (if isJSON then ''JSON'' else []) @ '' FORMAT:'' @ nl
                     @ delimiter @ nl @ js_toString outputs @ nl @ delimiter @ nl
                else []);
          p3 = (if hasInput inputs
                then ''INPUT:'' @ nl @ delimiter @ nl @ interpolate (JSON_stringify2 inputs) @ nl
                     @ delimiter @ nl @ ''    '' @ nl
                else [])
      in trim (p1 @ p2 @ p3))"

section \<open>The world outside the process\<close>

text \<open>
  What the program sends to the Gemini SDK (\<^verbatim>\<open>getGenerativeModel\<close> and
  \<^verbatim>\<open>generateContent\<close>).
\<close>

record gemini_request =
  gr_model :: string
  gr_systemInstruction :: "jsval option"
  gr_text :: string
  gr_temperature :: jsval
  gr_responseMimeType :: string
  gr_responseSchema :: jsval

text \<open>What goes to \<^verbatim>\<open>openai.chat.completions.create\<close> (the client's base URL with
  it) and to \<^verbatim>\<open>ollama.chat\<close>.\<close>

record chat_request =
  cr_baseURL :: "string option"
  cr_model :: jsval
  cr_response_format :: jsval
  cr_messages :: "jsval list"
  cr_temperature :: jsval
  cr_reasoning :: jsval

record ollama_request =
  or_model :: jsval
  or_messages :: "jsval list"
  or_format :: jsval
  or_temperature :: jsval

text \<open>
  The trace of what a call did, in order: an adapter function was entered (with its
  \<^verbatim>\<open>model\<close> argument), a backend was contacted, the process slept (milliseconds,
  \<open>None\<close> for NaN), a backend response was handed to \<^verbatim>\<open>JSON.parse\<close>.
\<close>

datatype event =
    Invoked string jsval
  | GeminiAPI string
  | ChatAPI "string option" jsval
  | OllamaAPI jsval
  | ProviderFn nat
  | Slept "int option"
  | ParsedResponse string

text \<open>
  The backends, the hash, the JSON parser, the image encoder (\<^verbatim>\<open>sharp\<close>, as
  \<^verbatim>\<open>base64Image\<close> drives it) and a caller's provider callback are outside the repository:
  they are parameters. A backend answers with the text of its reply (Gemini, with the
  usage metadata), with \<^verbatim>\<open>choices[0].message.content\<close> (chat completions) or with
  \<^verbatim>\<open>message\<close> (Ollama), or it throws. Its answer may depend on everything that happened
  before (the trace), so that "rate limited twice, then fine" is a world.
\<close>

record world =
  sha256 :: "string \<Rightarrow> string"
  JSON_parse :: "string \<Rightarrow> jsval option"
  sharp_base64 :: "jsval \<Rightarrow> thrown + string"
  generateContent :: "event list \<Rightarrow> gemini_request \<Rightarrow> thrown + (string \<times> jsval)"
  chat_completions_create :: "event list \<Rightarrow> chat_request \<Rightarrow> thrown + jsval"
  ollama_chat :: "event list \<Rightarrow> ollama_request \<Rightarrow> thrown + jsval"
  provider_fn :: "nat \<Rightarrow> event list \<Rightarrow> jsval \<Rightarrow> thrown + jsval"

text \<open>The state of the process: the flat-cache store, the module variable of gemini.js, and
  the trace.\<close>

record state =
  cache :: "(string \<times> jsval) list"
  lastRateLimitedGeminiModelIndex :: nat
  log :: "event list"

definition emit :: "event \<Rightarrow> state \<Rightarrow> state" where
  "emit e st = st\<lparr>log := log st @ [e]\<rparr>"

section \<open>The schema compiler (createJSONSchema.js)\<close>

text \<open>
  The compiler builds a zod schema and hands it to \<^verbatim>\<open>z.toJSONSchema\<close>. Of zod, the model has
  the constructors the compiler calls, as a datatype, and the JSON Schema zod 4 prints for
  them with \<^verbatim>\<open>io: "input"\<close>, as the expected schemas of simpleTest.js show it.
\<close>

datatype zod =
    ZString "nat option"
  | ZNumber
  | ZBoolean
  | ZAny
  | ZEnum "jsval list"
  | ZOptional zod
  | ZNullable zod
  | ZDescribe string zod
  | ZObject "(string \<times> zod) list"
  | ZArray zod
  | ZUnion "zod list"
  | ZRecord zod zod

text \<open>The \<^verbatim>\<open>switch\<close> of \<^verbatim>\<open>parseStringDescription\<close>. The enum case parses the second segment
  with \<^verbatim>\<open>JSON.parse\<close>; the message of its SyntaxError is not modelled.\<close>

definition type_keyword :: "world \<Rightarrow> string \<Rightarrow> string \<Rightarrow> thrown + (zod \<times> string option)" where
  "type_keyword w type description =
     (if type = ''number'' then Inr (ZNumber, Some description)
      else if type = ''boolean'' then Inr (ZBoolean, Some description)
      else if type = ''naming'' then Inr (ZString (Some 80), Some description)
      else if type = ''paragraph'' then Inr (ZString None, Some description)
      else if type = ''enum'' then
        (case JSON_parse w description of
           None \<Rightarrow> Inl (Error ''Malformed Enum: SyntaxError'')
         | Some (JArr enumValues) \<Rightarrow> Inr (ZEnum enumValues, None)
         | Some other \<Rightarrow> Inl (Error ''Malformed Enum: Enum values must be a JSON array.''))
      else Inr (ZString None, Some description))"

definition describe :: "string option \<Rightarrow> zod \<Rightarrow> zod" where
  "describe description zType =
     (case description of
        None \<Rightarrow> zType
      | Some d \<Rightarrow> if d = [] then zType else ZDescribe d zType)"

definition parseStringDescription :: "world \<Rightarrow> string \<Rightarrow> thrown + zod" where
  "parseStringDescription w descriptionString =
     (if CHR ''|'' \<in> set descriptionString then
        (let parts = map trim (split_on CHR ''|'' descriptionString);
             type0 = (if toLowerCase (parts ! 0) = [] then ''string'' else toLowerCase (parts ! 0));
             description = (if parts ! 1 = [] then parts ! 0 else parts ! 1);
             isOptional = str_includes '' optional'' type0;
             type = (if isOptional then trim (replace_first '' optional'' [] type0) else type0)
         in case type_keyword w (toLowerCase type) description of
              Inl e \<Rightarrow> Inl e
            | Inr (zType, description') \<Rightarrow>
                Inr (describe description'
                       (if isOptional then ZNullable (ZOptional zType) else zType)))
      else Inr (describe (Some descriptionString) (ZString None)))"

text \<open>
  \<^verbatim>\<open>convertToZod\<close>, with its loop over the fields of an object (and the branch on the
  type of a field's value), its \<^verbatim>\<open>map\<close> over the members of a union, and
  \<^verbatim>\<open>handleRecordConversion\<close>, which takes the first key other than \<^verbatim>\<open>__is_record\<close> as the
  sample. \<^verbatim>\<open>value[0]\<close> and \<^verbatim>\<open>value[1]\<close> are undefined when the array is too short; the
  field of an array whose first item is an array converts that item as an array.
\<close>

definition any_of_type :: "jsval \<Rightarrow> zod" where
  "any_of_type v = ZDescribe (''Type of '' @ typeof v) ZAny"

fun convertToZod :: "world \<Rightarrow> jsval \<Rightarrow> thrown + zod"
  and convertToZod_map :: "world \<Rightarrow> jsval list \<Rightarrow> thrown + zod list"
  and convertToZod_fields :: "world \<Rightarrow> (string \<times> jsval) list \<Rightarrow> thrown + (string \<times> zod) list"
  and convertToZod_field :: "world \<Rightarrow> jsval \<Rightarrow> thrown + zod"
  and handleRecordConversion :: "world \<Rightarrow> (string \<times> jsval) list \<Rightarrow> thrown + zod"
  and convertToZod_array :: "world \<Rightarrow> jsval list \<Rightarrow> thrown + zod" where
  "convertToZod w (JObj kvs) =
     (if truthy (get_prop (JObj kvs) ''__is_record'') then handleRecordConversion w kvs
      else (case convertToZod_fields w kvs of
              Inl e \<Rightarrow> Inl e
            | Inr zodObject \<Rightarrow> Inr (ZObject zodObject)))"
| "convertToZod w (JArr xs) = convertToZod_array w xs"
| "convertToZod w (JStr s) = parseStringDescription w s"
| "convertToZod w JUndefined = Inr (any_of_type JUndefined)"
| "convertToZod w JNull = Inr (any_of_type JNull)"
| "convertToZod w (JBool b) = Inr (any_of_type (JBool b))"
| "convertToZod w (JNum n) = Inr (any_of_type (JNum n))"
| "convertToZod w (JFun f) = Inr (any_of_type (JFun f))"
| "convertToZod_array w [] = Inr (ZArray ZAny)"
| "convertToZod_array w [x] =
     (case convertToZod w x of Inl e \<Rightarrow> Inl e | Inr z \<Rightarrow> Inr (ZArray z))"
| "convertToZod_array w (JArr ys # second # rest) =
     (if second = JStr ''anyOf'' then
        (case convertToZod_map w ys of
           Inl e \<Rightarrow> Inl e
         | Inr schemas \<Rightarrow> Inr (ZArray (ZUnion schemas)))
      else (case convertToZod_array w ys of Inl e \<Rightarrow> Inl e | Inr z \<Rightarrow> Inr (ZArray z)))"
| "convertToZod_array w (x # second # rest) =
     (case convertToZod w x of Inl e \<Rightarrow> Inl e | Inr z \<Rightarrow> Inr (ZArray z))"
| "convertToZod_map w [] = Inr []"
| "convertToZod_map w (x # xs) =
     (case convertToZod w x of
        Inl e \<Rightarrow> Inl e
      | Inr z \<Rightarrow> (case convertToZod_map w xs of Inl e \<Rightarrow> Inl e | Inr zs \<Rightarrow> Inr (z # zs)))"
| "convertToZod_fields w [] = Inr []"
| "convertToZod_fields w ((key, val) # kvs) =
     (case convertToZod_field w val of
        Inl e \<Rightarrow> Inl e
      | Inr z \<Rightarrow>
          (case convertToZod_fields w kvs of
             Inl e \<Rightarrow> Inl e
           | Inr zodObject \<Rightarrow> Inr ((key, z) # zodObject)))"
| "convertToZod_field w (JStr s) = parseStringDescription w s"
| "convertToZod_field w (JArr []) = Inr (ZArray (any_of_type JUndefined))"
| "convertToZod_field w (JArr [first]) =
     (case convertToZod w first of Inl e \<Rightarrow> Inl e | Inr z \<Rightarrow> Inr (ZArray z))"
| "convertToZod_field w (JArr (JArr ys # second # rest)) =
     (case convertToZod_array w ys of
        Inl e \<Rightarrow> Inl e
      | Inr z \<Rightarrow>
          if second = JStr ''optional'' then Inr (ZNullable (ZOptional (ZArray z)))
          else if second = JStr ''anyOf'' then
            (case convertToZod_map w ys of
               Inl e \<Rightarrow> Inl e
             | Inr schemas \<Rightarrow> Inr (ZArray (ZUnion schemas)))
          else Inr (ZArray z))"
| "convertToZod_field w (JArr (first # second # rest)) =
     (case convertToZod w first of
        Inl e \<Rightarrow> Inl e
      | Inr z \<Rightarrow>
          if second = JStr ''optional'' then Inr (ZNullable (ZOptional (ZArray z)))
          else Inr (ZArray z))"
| "convertToZod_field w (JObj props) = convertToZod w (JObj props)"
| "convertToZod_field w JUndefined = Inr (any_of_type JUndefined)"
| "convertToZod_field w JNull = Inr (any_of_type JNull)"
| "convertToZod_field w (JBool b) = Inr (any_of_type (JBool b))"
| "convertToZod_field w (JNum n) = Inr (any_of_type (JNum n))"
| "convertToZod_field w (JFun f) = Inr (any_of_type (JFun f))"
| "handleRecordConversion w [] = Inr (ZRecord (ZString None) ZAny)"
| "handleRecordConversion w ((sampleKey, sampleValue) # kvs) =
     (if sampleKey = ''__is_record'' then handleRecordConversion w kvs
      else (case parseStringDescription w sampleKey of
              Inl e \<Rightarrow> Inl e
            | Inr keySchema \<Rightarrow>
                (case convertToZod w sampleValue of
                   Inl e \<Rightarrow> Inl e
                 | Inr valueSchema \<Rightarrow> Inr (ZRecord keySchema valueSchema))))"

text \<open>
  \<^verbatim>\<open>z.toJSONSchema(schema, { io: "input" })\<close>. A key is required on input unless its schema
  is optional; optionality passes through \<^verbatim>\<open>nullable\<close> and \<^verbatim>\<open>describe\<close>, and a union is
  optional when a member is. A description comes first and replaces that of the schema it
  wraps. \<^verbatim>\<open>nativeEnum\<close> of an array drops the entries it takes for the reverse mapping of a
  numeric enum: those whose index is among the numeric values.
\<close>

fun optin :: "zod \<Rightarrow> bool" and optin_any :: "zod list \<Rightarrow> bool" where
  "optin (ZOptional z) = True"
| "optin (ZNullable z) = optin z"
| "optin (ZDescribe d z) = optin z"
| "optin (ZUnion zs) = optin_any zs"
| "optin (ZString n) = False"
| "optin ZNumber = False"
| "optin ZBoolean = False"
| "optin ZAny = False"
| "optin (ZEnum vs) = False"
| "optin (ZObject shape) = False"
| "optin (ZArray z) = False"
| "optin (ZRecord k v) = False"
| "optin_any [] = False"
| "optin_any (z # zs) = (optin z \<or> optin_any zs)"

definition is_number :: "jsval \<Rightarrow> bool" where
  "is_number v = (case v of JNum n \<Rightarrow> True | _ \<Rightarrow> False)"

definition is_string :: "jsval \<Rightarrow> bool" where
  "is_string v = (case v of JStr s \<Rightarrow> True | _ \<Rightarrow> False)"

definition getEnumValues :: "jsval list \<Rightarrow> jsval list" where
  "getEnumValues entries =
     map snd (filter (\<lambda>(i, v). JNum (show_nat i) \<notin> set (filter is_number entries))
                     (enumerate 0 entries))"

definition enum_schema :: "jsval list \<Rightarrow> (string \<times> jsval) list" where
  "enum_schema vals =
     (if list_all is_number vals then [(''type'', JStr ''number'')] else [])
     @ (if list_all is_string vals then [(''type'', JStr ''string'')] else [])
     @ [(''enum'', JArr vals)]"

fun toJSONSchema :: "zod \<Rightarrow> (string \<times> jsval) list"
  and toJSONSchema_list :: "zod list \<Rightarrow> jsval list"
  and toJSONSchema_properties :: "(string \<times> zod) list \<Rightarrow> (string \<times> jsval) list" where
  "toJSONSchema (ZString None) = [(''type'', JStr ''string'')]"
| "toJSONSchema (ZString (Some n)) = [(''type'', JStr ''string''), (''maxLength'', JNum (show_nat n))]"
| "toJSONSchema ZNumber = [(''type'', JStr ''number'')]"
| "toJSONSchema ZBoolean = [(''type'', JStr ''boolean'')]"
| "toJSONSchema ZAny = []"
| "toJSONSchema (ZEnum entries) = enum_schema (getEnumValues entries)"
| "toJSONSchema (ZOptional z) = toJSONSchema z"
| "toJSONSchema (ZNullable z) =
     [(''anyOf'', JArr [JObj (toJSONSchema z), JObj [(''type'', JStr ''null'')]])]"
| "toJSONSchema (ZDescribe d z) =
     (''description'', JStr d) # AList.delete ''description'' (toJSONSchema z)"
| "toJSONSchema (ZObject shape) =
     [(''type'', JStr ''object''), (''properties'', JObj (toJSONSchema_properties shape))]
     @ (if filter (\<lambda>(k, z). \<not> optin z) shape = [] then []
        else [(''required'', JArr (map (\<lambda>(k, z). JStr k) (filter (\<lambda>(k, z). \<not> optin z) shape)))])"
| "toJSONSchema (ZArray z) = [(''type'', JStr ''array''), (''items'', JObj (toJSONSchema z))]"
| "toJSONSchema (ZUnion zs) = [(''anyOf'', JArr (toJSONSchema_list zs))]"
| "toJSONSchema (ZRecord k v) =
     [(''type'', JStr ''object''), (''propertyNames'', JObj (toJSONSchema k)),
      (''additionalProperties'', JObj (toJSONSchema v))]"
| "toJSONSchema_list [] = []"
| "toJSONSchema_list (z # zs) = JObj (toJSONSchema z) # toJSONSchema_list zs"
| "toJSONSchema_properties [] = []"
| "toJSONSchema_properties ((k, z) # shape) = (k, JObj (toJSONSchema z)) # toJSONSchema_properties shape"

text \<open>\<^verbatim>\<open>isZodSchema\<close>: an object with a function \<^verbatim>\<open>safeParse\<close>. A value of the model that
  passes the test is no zod schema, and \<^verbatim>\<open>z.toJSONSchema\<close> throws on it.\<close>

definition isZodSchema :: "jsval \<Rightarrow> bool" where
  "isZodSchema input =
     (typeof input = ''object'' \<and> input \<noteq> JNull \<and> typeof (get_prop input ''safeParse'') = ''function'')"

definition createJSONSchema :: "world \<Rightarrow> jsval \<Rightarrow> thrown + jsval" where
  "createJSONSchema w input =
     (if isZodSchema input then Inl TypeError
      else (case convertToZod w input of
              Inl e \<Rightarrow> Inl e
            | Inr zodSchema \<Rightarrow> Inr (JObj (AList.delete ''$schema'' (toJSONSchema zodSchema)))))"

section \<open>The message builder (messages.js)\<close>

text \<open>\<^verbatim>\<open>base64Image\<close> of aiTask.js drives \<^verbatim>\<open>sharp\<close>; it is called with the image only, so
  with resizing.\<close>

definition base64Image :: "world \<Rightarrow> jsval \<Rightarrow> thrown + string" where
  "base64Image w img = sharp_base64 w img"

text \<open>The two image message builders: \<^verbatim>\<open>openAIImageMessageBuilder\<close> of messages.js, the
  default, and \<^verbatim>\<open>ollamaImageMessageBuilder\<close> of ollama.js.\<close>

definition openAIImageMessageBuilder :: "string \<Rightarrow> jsval list \<Rightarrow> jsval" where
  "openAIImageMessageBuilder text images =
     JObj [(''role'', JStr ''user''),
           (''content'', JArr (JObj [(''type'', JStr ''text''), (''text'', JStr text)]
              # map (\<lambda>img. JObj [(''type'', JStr ''image_url''),
                                    (''image_url'', JObj [(''url'',
                                       JStr (''data:image/jpeg;base64,'' @ js_toString img))])])
                    images))]"

definition ollamaImageMessageBuilder :: "string \<Rightarrow> jsval list \<Rightarrow> jsval" where
  "ollamaImageMessageBuilder text images =
     JObj [(''role'', JStr ''user''), (''content'', JStr text), (''images'', JArr images)]"

record messages_args =
  ma_role :: jsval
  ma_task :: jsval
  ma_inputs :: jsval
  ma_outputs :: jsval
  ma_outputFormat :: jsval
  ma_USE_JSON_SCHEMA :: bool
  ma_imageMessageBuilder :: "string \<Rightarrow> jsval list \<Rightarrow> jsval"

record messages_result =
  mr_messages :: "jsval list"
  mr_returnWholeMessage :: bool
  mr_isSchemaType :: bool
  mr_schema :: jsval

text \<open>
  The loop \<^verbatim>\<open>inputs.images[i] = await base64Image(inputs.images[i])\<close>: it overwrites the
  entries of the caller's array one by one. The result is the error that stopped it, if
  any, and the array as the loop left it.
\<close>

fun encode_images :: "world \<Rightarrow> jsval list \<Rightarrow> thrown option \<times> jsval list" where
  "encode_images w [] = (None, [])"
| "encode_images w (img # images) =
     (case base64Image w img of
        Inl error \<Rightarrow> (Some error, img # images)
      | Inr encoded \<Rightarrow>
          (case encode_images w images of (error, images') \<Rightarrow> (error, JStr encoded # images')))"

text \<open>
  Lines 107 to 116. The result is the image list for the messages, or what was thrown, and
  \<^verbatim>\<open>inputs\<close> as the caller sees it afterwards: without its \<^verbatim>\<open>images\<close> entry when the loop
  went through. Reading \<^verbatim>\<open>inputs.images\<close> of a null or undefined \<^verbatim>\<open>inputs\<close> throws. A
  non-empty string has a length too: the loop then encodes its first character and, the
  module being strict code, throws on the assignment if not before. An \<^verbatim>\<open>images\<close> entry
  that is an object or a function with a \<^verbatim>\<open>length\<close> of its own is not modelled.
\<close>

definition take_images :: "world \<Rightarrow> jsval \<Rightarrow> (thrown + jsval list) \<times> jsval" where
  "take_images w inputs =
     (if nullish inputs then (Inl TypeError, inputs)
      else
        (case inputs of
           JObj kvs \<Rightarrow>
             (case get_prop inputs ''images'' of
                JArr (img # rest) \<Rightarrow>
                  (case encode_images w (img # rest) of
                     (Some error, partial) \<Rightarrow>
                       (Inl error, JObj (AList.update ''images'' (JArr partial) kvs))
                   | (None, images) \<Rightarrow> (Inr images, JObj (AList.delete ''images'' kvs)))
              | JStr (c # cs) \<Rightarrow>
                  (case base64Image w (JStr [c]) of
                     Inl error \<Rightarrow> (Inl error, inputs)
                   | Inr encoded \<Rightarrow> (Inl TypeError, inputs))
              | _ \<Rightarrow> (Inr [], inputs))
         | _ \<Rightarrow> (Inr [], inputs)))"

text \<open>\<^verbatim>\<open>Object.entries\<close> of a value that is neither null nor undefined.\<close>

definition Object_entries :: "jsval \<Rightarrow> (string \<times> jsval) list" where
  "Object_entries v =
     (case v of
        JObj kvs \<Rightarrow> kvs
      | JArr xs \<Rightarrow> zip (map show_nat [0 ..< length xs]) xs
      | JStr s \<Rightarrow> zip (map show_nat [0 ..< length s]) (map (\<lambda>c. JStr [c]) s)
      | _ \<Rightarrow> [])"

text \<open>
  Lines 128 to 138: the three renderings of \<^verbatim>\<open>outputs\<close> and the prompt. The schema of
  \<^verbatim>\<open>outputs\<close> is computed and dropped, but computing it can throw (a malformed enum), and
  \<^verbatim>\<open>Object.entries\<close> throws on undefined.
\<close>

definition outputs_prompt ::
  "world \<Rightarrow> jsval \<Rightarrow> jsval \<Rightarrow> jsval \<Rightarrow> jsval \<Rightarrow> bool \<Rightarrow> thrown + string" where
  "outputs_prompt w task inputs outputs outputFormat USE_JSON_SCHEMA0 =
     (let USE_JSON_SCHEMA = (USE_JSON_SCHEMA0 \<and> outputFormat = JStr ''json_object'');
          USE_JSON_AS_OUTPUT = (outputFormat \<noteq> JStr ''text'');
          jsonOutputs = (if outputs \<noteq> JNull
                         then (case JSON_stringify2 outputs of Some s \<Rightarrow> JStr s | None \<Rightarrow> JUndefined)
                         else JStr [])
      in case (if outputs \<noteq> JNull then createJSONSchema w outputs else Inr (JStr [])) of
           Inl error \<Rightarrow> Inl error
         | Inr jsonSchemaOutputs \<Rightarrow>
             if outputs = JUndefined then Inl TypeError
             else
               (let jsonOutputsAsList =
                      (if outputs \<noteq> JNull
                       then ''JSON '' @ join [CHR 0x0A]
                              (map (\<lambda>(key, output). key @ '': '' @ interpolate (JSON_stringify2 output))
                                   (Object_entries outputs))
                       else [])
                in Inr (buildPrompt task inputs
                          (if USE_JSON_SCHEMA \<or> \<not> USE_JSON_AS_OUTPUT then JStr jsonOutputsAsList
                           else jsonOutputs)
                          USE_JSON_AS_OUTPUT)))"

text \<open>
  Lines 147 to 158, the branch of a raw message list: a string becomes a user turn, any
  other entry is pushed as it is, the caller's own object. The images then go on the
  last message of the list; when that is an entry of the caller's list, the caller's
  \<^verbatim>\<open>inputs.messages\<close> shows the change. Setting a property throws on null, undefined and,
  in strict code, on a primitive; on an array or a function it does not show in the model.
\<close>

definition as_message :: "jsval \<Rightarrow> jsval" where
  "as_message message =
     (case message of
        JStr s \<Rightarrow> JObj [(''role'', JStr ''user''), (''content'', JStr s)]
      | _ \<Rightarrow> message)"

definition set_images :: "jsval list \<Rightarrow> jsval \<Rightarrow> thrown + jsval" where
  "set_images images message =
     (case message of
        JObj kvs \<Rightarrow> Inr (JObj (AList.update ''images'' (JArr images) kvs))
      | JArr xs \<Rightarrow> Inr message
      | JFun f \<Rightarrow> Inr message
      | _ \<Rightarrow> Inl TypeError)"

definition is_string_entry :: "jsval \<Rightarrow> bool" where
  "is_string_entry message = (typeof message = ''string'')"

definition raw_messages ::
  "jsval list \<Rightarrow> jsval list \<Rightarrow> jsval list \<Rightarrow> (string \<times> jsval) list
     \<Rightarrow> (thrown + jsval list) \<times> jsval" where
  "raw_messages system entries images kvs =
     (let messages = system @ map as_message entries
      in if messages = [] then (Inr [], JObj kvs)
         else
           (case set_images images (last messages) of
              Inl error \<Rightarrow> (Inl error, JObj kvs)
            | Inr message \<Rightarrow>
                (Inr (butlast messages @ [message]),
                 if entries = [] \<or> is_string_entry (last entries) then JObj kvs
                 else JObj (AList.update ''messages'' (JArr (butlast entries @ [message])) kvs))))"

text \<open>
  The last step: the raw message list of the caller when \<^verbatim>\<open>inputs.messages\<close> is an
  array, the system turn and one user turn with the prompt and the images otherwise.
\<close>

definition message_list ::
  "jsval list \<Rightarrow> jsval list \<Rightarrow> jsval \<Rightarrow> jsval \<Rightarrow> (thrown + jsval list \<times> bool) \<times> jsval" where
  "message_list system images inputs userMessage =
     (case (inputs, get_prop inputs ''messages'') of
        (JObj kvs, JArr entries) \<Rightarrow>
          (case raw_messages system entries images kvs of
             (Inl error, inputs') \<Rightarrow> (Inl error, inputs')
           | (Inr messages, inputs') \<Rightarrow> (Inr (filter truthy messages, True), inputs'))
      | _ \<Rightarrow> (Inr (filter truthy (system @ [userMessage]), False), inputs))"

text \<open>
  \<^verbatim>\<open>createOllamaMessages\<close>. Its result comes with \<^verbatim>\<open>inputs\<close> as the caller sees it after
  the call, since the function writes to the object it is given.
\<close>

definition createOllamaMessages ::
  "world \<Rightarrow> messages_args \<Rightarrow> (thrown + messages_result) \<times> jsval" where
  "createOllamaMessages w a =
     (case take_images w (ma_inputs a) of
        (Inl error, inputs) \<Rightarrow> (Inl error, inputs)
      | (Inr images, inputs) \<Rightarrow>
          if ma_USE_JSON_SCHEMA a \<and> nullish (ma_outputs a) then (Inl TypeError, inputs)
          else
            (let ty = get_prop (ma_outputs a) ''type'';
                 isSchemaType = (ma_USE_JSON_SCHEMA a \<and> truthy ty
                                   \<and> (ty = JStr ''array'' \<or> ty = JStr ''object''));
                 schema = (if isSchemaType then ma_outputs a else JNull);
                 system = (if truthy (ma_role a)
                           then [JObj [(''role'', JStr ''system''), (''content'', ma_role a)]]
                           else [])
             in case outputs_prompt w (ma_task a) inputs (ma_outputs a) (ma_outputFormat a)
                       (ma_USE_JSON_SCHEMA a) of
                  Inl error \<Rightarrow> (Inl error, inputs)
                | Inr prompt \<Rightarrow>
                    (case message_list system images inputs
                            (ma_imageMessageBuilder a prompt images) of
                       (Inl error, inputs') \<Rightarrow> (Inl error, inputs')
                     | (Inr (messages, returnWholeMessage), inputs') \<Rightarrow>
                         (Inr \<lparr>mr_messages = messages,
                               mr_returnWholeMessage = returnWholeMessage,
                               mr_isSchemaType = isSchemaType,
                               mr_schema = schema\<rparr>, inputs'))))"

section \<open>The Gemini adapter (gemini.js)\<close>

definition geminiModels :: "string list" where
  "geminiModels = [''gemini-3-flash'', ''gemini-2.5-flash'', ''gemini-2.5-flash-lite'']"

definition RetryInfo :: string where
  "RetryInfo = ''type.googleapis.com/google.rpc.RetryInfo''"

text \<open>\<^verbatim>\<open>rateLimitRetryDelay\<close>, in milliseconds (\<open>None\<close> is NaN).\<close>

definition rateLimitRetryDelay :: "thrown \<Rightarrow> int option" where
  "rateLimitRetryDelay error =
     (let retryDelaySeconds =
            (case errorDetails error of
               Some details \<Rightarrow>
                 (case find (\<lambda>detail. fst detail = RetryInfo) details of
                    Some (ty, Some retryDelay) \<Rightarrow>
                      if retryDelay \<noteq> [] then Some (parseInt (replace_first ''s'' [] retryDelay))
                      else None
                  | _ \<Rightarrow> None)
             | None \<Rightarrow> None);
          defaultDelaySeconds = Some 30;
          delaySeconds = (case retryDelaySeconds of Some d \<Rightarrow> d | None \<Rightarrow> defaultDelaySeconds)
      in map_option (\<lambda>d. d * 1000 + 250) delaySeconds)"

definition isRateLimitError :: "thrown \<Rightarrow> bool" where
  "isRateLimitError error = (status error = Some 429)"

text \<open>The parameters of \<^verbatim>\<open>callGeminiModel\<close>. The two retry counters are \<^verbatim>\<open>false\<close> or a
  positive number in the source; \<open>0\<close> stands for \<^verbatim>\<open>false\<close>.\<close>

record gemini_params =
  gp_role :: jsval
  gp_task :: jsval
  gp_inputs :: jsval
  gp_outputs :: jsval
  gp_outputFormat :: jsval
  gp_temperature :: jsval
  gp_model :: jsval
  gp_JSONErrorRetry :: nat
  gp_OverloadErrorRetry :: nat
  gp_includeMetadata :: jsval

definition gemini_defaults :: "gemini_params \<Rightarrow> gemini_params" where
  "gemini_defaults p =
     p\<lparr>gp_outputFormat := default_to (JStr ''json_object'') (gp_outputFormat p),
       gp_temperature := default_to (JNum ''0.7'') (gp_temperature p),
       gp_model := default_to (JStr ''gemini-2.0-flash'') (gp_model p),
       gp_includeMetadata := default_to (JBool False) (gp_includeMetadata p)\<rparr>"

text \<open>Lines 326 to 330: \<^verbatim>\<open>output.usageMetadata = ...\<close> when \<^verbatim>\<open>includeMetadata\<close> is set and the
  format is JSON. The module is strict code, so the assignment throws on a primitive as
  it does on null; on an array or a function it sets a property the model does not show.\<close>

definition attach_usageMetadata :: "jsval \<Rightarrow> jsval \<Rightarrow> jsval outcome" where
  "attach_usageMetadata usageMetadata output =
     (case output of
        JObj kvs \<Rightarrow> Returned (JObj (AList.update ''usageMetadata'' usageMetadata kvs))
      | JArr xs \<Rightarrow> Returned output
      | JFun f \<Rightarrow> Returned output
      | _ \<Rightarrow> Thrown TypeError)"

text \<open>Lines 324 to 330: the one call of \<^verbatim>\<open>JSON.parse\<close> on the reply.\<close>

definition gemini_output ::
  "world \<Rightarrow> gemini_params \<Rightarrow> string \<Rightarrow> jsval \<Rightarrow> state \<Rightarrow> jsval outcome \<times> state" where
  "gemini_output w p responseContent usageMetadata st =
     (if gp_outputFormat p = JStr ''json_object'' then
        (case JSON_parse w responseContent of
           None \<Rightarrow> (Thrown SyntaxError, emit (ParsedResponse responseContent) st)
         | Some output \<Rightarrow>
             (if truthy (gp_includeMetadata p) then attach_usageMetadata usageMetadata output
              else Returned output,
              emit (ParsedResponse responseContent) st))
      else (Returned (JStr responseContent), st))"

text \<open>Lines 286 to 309: the request that goes to the SDK.\<close>

definition gemini_request_of :: "gemini_params \<Rightarrow> string \<Rightarrow> gemini_request" where
  "gemini_request_of p model =
     (let ty = get_prop (gp_outputs p) ''type'';
          isSchemaType = (truthy ty \<and> (ty = JStr ''array'' \<or> ty = JStr ''object''));
          isJSON = (gp_outputFormat p = JStr ''json_object'')
      in \<lparr>gr_model = model,
          gr_systemInstruction = (if starts_with ''gemma'' model then None else Some (gp_role p)),
          gr_text = buildPrompt (gp_task p) (gp_inputs p) (gp_outputs p) isJSON,
          gr_temperature = gp_temperature p,
          gr_responseMimeType = (if isJSON then ''application/json'' else ''text/plain''),
          gr_responseSchema = (if isSchemaType then gp_outputs p else JNull)\<rparr>)"

text \<open>Lines 292 to 295: a model without system instructions gets the role in the task.\<close>

definition gemma_task :: "gemini_params \<Rightarrow> string \<Rightarrow> gemini_params" where
  "gemma_task p model =
     (if starts_with ''gemma'' model
      then p\<lparr>gp_task := JStr (''ROLE:'' @ js_toString (gp_role p) @ [CHR 0x0A, CHR 0x0A]
                              @ js_toString (gp_task p))\<rparr>
      else p)"

text \<open>
  Lines 282 to 330 of \<^verbatim>\<open>callGeminiModel\<close>: everything inside the outer \<^verbatim>\<open>try\<close> up to the
  inner one. The result carries the parameters as reassigned so far (\<^verbatim>\<open>model\<close>,
  \<^verbatim>\<open>task\<close>), which the handlers pass on. Reading \<^verbatim>\<open>outputs.type\<close> of a null or undefined
  \<^verbatim>\<open>outputs\<close> throws, and so does \<^verbatim>\<open>model.startsWith\<close> when the model is not a string.
\<close>

definition gemini_attempt ::
  "world \<Rightarrow> gemini_params \<Rightarrow> state \<Rightarrow> jsval outcome \<times> gemini_params \<times> state" where
  "gemini_attempt w p st =
     (let p1 = p\<lparr>gp_model := (if gp_model p = JNull then JStr ''gemini-2.5-flash'' else gp_model p)\<rparr>
      in if nullish (gp_outputs p1) then (Thrown TypeError, p1, st)
         else
           (case gp_model p1 of
              JStr model \<Rightarrow>
                (let p2 = gemma_task p1 model
                 in case generateContent w (log st) (gemini_request_of p2 model) of
                      Inl error \<Rightarrow> (Thrown error, p2, emit (GeminiAPI model) st)
                    | Inr (responseContent, usageMetadata) \<Rightarrow>
                        (case gemini_output w p2 responseContent usageMetadata
                                (emit (GeminiAPI model) st) of
                           (r, st2) \<Rightarrow> (r, p2, st2)))
            | _ \<Rightarrow> (Thrown TypeError, p1, st)))"

text \<open>
  \<^verbatim>\<open>callGeminiModel\<close>. The inner \<^verbatim>\<open>try\<close> of the source holds the single statement
  \<^verbatim>\<open>return output\<close>; its handler (the malformed-output retry) is written out below as the
  source has it. \<^verbatim>\<open>JSON.parse\<close> is called before the inner \<^verbatim>\<open>try\<close>, inside the outer one.
\<close>

primrec callGeminiModel :: "nat \<Rightarrow> world \<Rightarrow> gemini_params \<Rightarrow> state \<Rightarrow> jsval outcome \<times> state" where
  "callGeminiModel 0 w p0 st0 = (OutOfFuel, st0)"
| "callGeminiModel (Suc n) w p0 st0 =
     (case gemini_attempt w (gemini_defaults p0) st0 of (attempt, p, st) \<Rightarrow>
        (case (case attempt of
                 Returned output \<Rightarrow>
                   (case (Returned output :: jsval outcome, st) of
                      (Thrown JSONError, st') \<Rightarrow>
                        if gp_JSONErrorRetry p \<noteq> 0 \<and> gp_JSONErrorRetry p + 1 > 3
                        then (Thrown JSONError, st')
                        else callGeminiModel n w
                               (p\<lparr>gp_JSONErrorRetry :=
                                    (if gp_JSONErrorRetry p \<noteq> 0 then gp_JSONErrorRetry p + 1 else 1)\<rparr>) st'
                    | r \<Rightarrow> r)
               | other \<Rightarrow> (other, st)) of
           (Thrown error, st1) \<Rightarrow>
             if status error = Some 429 then (Thrown error, st1)
             else if status error = Some 499 \<or> status error = Some 503 then
               (let retry = (if gp_OverloadErrorRetry p \<noteq> 0 then gp_OverloadErrorRetry p + 1 else 1)
                in callGeminiModel n w (p\<lparr>gp_OverloadErrorRetry := retry\<rparr>)
                     (emit (Slept (Some (int retry * 10000))) st1))
             else (Returned JNull, st1)
         | r \<Rightarrow> r))"

text \<open>The parameters of \<^verbatim>\<open>callGemini\<close>, after destructuring.\<close>

record gemini_call =
  gc_role :: jsval
  gc_task :: jsval
  gc_inputs :: jsval
  gc_outputs :: jsval
  gc_outputFormat :: jsval
  gc_temperature :: jsval
  gc_model :: jsval
  gc_bestModel :: jsval
  gc_includeMetadata :: jsval

definition gemini_call_of :: "jsval \<Rightarrow> gemini_call" where
  "gemini_call_of params =
     \<lparr>gc_role = get_prop params ''role'',
      gc_task = get_prop params ''task'',
      gc_inputs = get_prop params ''inputs'',
      gc_outputs = get_prop params ''outputs'',
      gc_outputFormat = default_to (JStr ''json_object'') (get_prop params ''outputFormat''),
      gc_temperature = default_to (JNum ''0.7'') (get_prop params ''temperature''),
      gc_model = default_to JNull (get_prop params ''model''),
      gc_bestModel = default_to (JBool False) (get_prop params ''bestModel''),
      gc_includeMetadata = default_to (JBool False) (get_prop params ''includeMetadata'')\<rparr>"

definition model_params :: "gemini_call \<Rightarrow> jsval \<Rightarrow> gemini_params" where
  "model_params c model =
     \<lparr>gp_role = gc_role c, gp_task = gc_task c, gp_inputs = gc_inputs c,
      gp_outputs = gc_outputs c, gp_outputFormat = gc_outputFormat c,
      gp_temperature = gc_temperature c, gp_model = model,
      gp_JSONErrorRetry = 0, gp_OverloadErrorRetry = 0,
      gp_includeMetadata = gc_includeMetadata c\<rparr>"

text \<open>The \<^verbatim>\<open>while\<close> loop over the default priority list, from index \<open>modelIndex\<close>. A loop that
  ends without a \<^verbatim>\<open>return\<close> makes the function return undefined.\<close>

function callGemini_walk ::
  "nat \<Rightarrow> world \<Rightarrow> gemini_call \<Rightarrow> nat \<Rightarrow> state \<Rightarrow> jsval outcome \<times> state" where
  "callGemini_walk n w c modelIndex st =
     (if modelIndex < length geminiModels then
        (case callGeminiModel n w (model_params c (JStr (geminiModels ! modelIndex))) st of
           (Thrown error, st1) \<Rightarrow>
             if isRateLimitError error then callGemini_walk n w c (modelIndex + 1) st1
             else (Thrown error, st1)
         | r \<Rightarrow> r)
      else (Returned JUndefined, st))"
  by pat_completeness auto
termination
  by (relation "measure (\<lambda>(n, w, c, modelIndex, st). length geminiModels - modelIndex)") auto

declare callGemini_walk.simps [simp del]

text \<open>The test \<^verbatim>\<open>model !== null || bestModel\<close>: one candidate is pinned.\<close>

definition pinned :: "gemini_call \<Rightarrow> bool" where
  "pinned c = (gc_model c \<noteq> JNull \<or> truthy (gc_bestModel c))"

primrec callGemini :: "nat \<Rightarrow> world \<Rightarrow> gemini_call \<Rightarrow> state \<Rightarrow> jsval outcome \<times> state" where
  "callGemini 0 w c st0 = (OutOfFuel, st0)"
| "callGemini (Suc n) w c st0 =
     (let st = emit (Invoked ''callGemini'' (gc_model c)) st0
      in if pinned c then
           (case callGeminiModel n w (model_params c (gc_model c)) st of
              (Thrown error, st1) \<Rightarrow>
                if isRateLimitError error then
                  callGemini n w c
                    (emit (Slept (map_option (\<lambda>ms. ms + 1000) (rateLimitRetryDelay error))) st1)
                else callGemini_walk n w c (lastRateLimitedGeminiModelIndex st1) st1
            | r \<Rightarrow> r)
         else callGemini_walk n w c (lastRateLimitedGeminiModelIndex st) st)"

section \<open>The chat-completions adapter (openai.js, openrouter.js)\<close>

text \<open>The two \<^verbatim>\<open>replace\<close> calls with the patterns \<^verbatim>\<open>/^```json/\<close> and \<^verbatim>\<open>/```$/\<close>.\<close>

definition strip_fence :: "string \<Rightarrow> string" where
  "strip_fence s =
     (let t = (if starts_with ''```json'' s then drop 7 s else s)
      in if starts_with ''```'' (rev t) then rev (drop 3 (rev t)) else t)"

record chat_params =
  cp_model :: jsval
  cp_role :: jsval
  cp_task :: jsval
  cp_inputs :: jsval
  cp_outputs :: jsval
  cp_outputFormat :: jsval
  cp_temperature :: jsval
  cp_reasoning :: jsval

text \<open>Lines 58 to 69 of \<^verbatim>\<open>_callOpenAI\<close>: parse the reply, then parse it again without the
  fence. A second failure is logged, and the function ends without a \<^verbatim>\<open>return\<close>.
  \<^verbatim>\<open>replace\<close> on a reply that is not a string throws inside the inner \<^verbatim>\<open>try\<close>.\<close>

definition parse_reply :: "world \<Rightarrow> jsval \<Rightarrow> jsval" where
  "parse_reply w jsonResponse =
     (case JSON_parse w (js_toString jsonResponse) of
        Some parsed \<Rightarrow> parsed
      | None \<Rightarrow>
          (case jsonResponse of
             JStr s \<Rightarrow> (case JSON_parse w (strip_fence s) of
                          Some parsed \<Rightarrow> parsed
                        | None \<Rightarrow> JUndefined)
           | _ \<Rightarrow> JUndefined))"

text \<open>
  \<^verbatim>\<open>_callOpenAI\<close>, for the client with the given base URL. Everything is inside one
  \<^verbatim>\<open>try\<close> whose handler returns null. The result comes with \<^verbatim>\<open>inputs\<close> as the message
  builder left it.
\<close>

definition callOpenAI_client ::
  "world \<Rightarrow> string option \<Rightarrow> chat_params \<Rightarrow> state \<Rightarrow> jsval outcome \<times> jsval \<times> state" where
  "callOpenAI_client w baseURL p st =
     (let model = default_to (JStr ''gpt-4o-mini'') (cp_model p);
          outputFormat = default_to (JStr ''json_object'') (cp_outputFormat p);
          temperature = default_to (JNum ''0.7'') (cp_temperature p);
          reasoning = default_to JNull (cp_reasoning p)
      in case createOllamaMessages w
                \<lparr>ma_role = cp_role p, ma_task = cp_task p, ma_inputs = cp_inputs p,
                 ma_outputs = cp_outputs p, ma_outputFormat = outputFormat,
                 ma_USE_JSON_SCHEMA = True,
                 ma_imageMessageBuilder = openAIImageMessageBuilder\<rparr> of
           (Inl error, inputs) \<Rightarrow> (Returned JNull, inputs, st)
         | (Inr built, inputs) \<Rightarrow>
             (let response_format =
                    (if mr_isSchemaType built
                     then JObj [(''type'', JStr ''json_schema''),
                                (''json_schema'', JObj [(''name'', JStr ''Schema''),
                                                        (''schema'', mr_schema built)])]
                     else JObj [(''type'', JStr (if outputFormat = JStr ''json_object''
                                                 then ''json_object'' else ''text''))]);
                  request = \<lparr>cr_baseURL = baseURL, cr_model = model,
                             cr_response_format = response_format,
                             cr_messages = mr_messages built,
                             cr_temperature = temperature,
                             cr_reasoning = (if truthy reasoning then reasoning else JUndefined)\<rparr>;
                  st1 = emit (ChatAPI baseURL model) st
              in case chat_completions_create w (log st) request of
                   Inl error \<Rightarrow> (Returned JNull, inputs, st1)
                 | Inr jsonResponse \<Rightarrow>
                     (Returned (parse_reply w jsonResponse), inputs,
                      emit (ParsedResponse (js_toString jsonResponse)) st1)))"

text \<open>\<^verbatim>\<open>callOpenAI\<close> passes neither \<^verbatim>\<open>model\<close> nor \<^verbatim>\<open>reasoning\<close> on.\<close>

definition callOpenAI :: "world \<Rightarrow> jsval \<Rightarrow> state \<Rightarrow> jsval outcome \<times> jsval \<times> state" where
  "callOpenAI w params st =
     callOpenAI_client w None
       \<lparr>cp_model = JUndefined,
        cp_role = get_prop params ''role'', cp_task = get_prop params ''task'',
        cp_inputs = get_prop params ''inputs'', cp_outputs = get_prop params ''outputs'',
        cp_outputFormat = default_to (JStr ''json_object'') (get_prop params ''outputFormat''),
        cp_temperature = default_to (JNum ''0.7'') (get_prop params ''temperature''),
        cp_reasoning = JUndefined\<rparr>
       (emit (Invoked ''callOpenAI'' (get_prop params ''model'')) st)"

text \<open>\<^verbatim>\<open>callOpenRouter\<close>: the same client code with the aggregator's base URL and the
  request's model.\<close>

definition callOpenRouter :: "world \<Rightarrow> jsval \<Rightarrow> state \<Rightarrow> jsval outcome \<times> jsval \<times> state" where
  "callOpenRouter w params st =
     callOpenAI_client w (Some ''https://openrouter.ai/api/v1'')
       \<lparr>cp_model = get_prop params ''model'',
        cp_role = get_prop params ''role'', cp_task = get_prop params ''task'',
        cp_inputs = get_prop params ''inputs'', cp_outputs = get_prop params ''outputs'',
        cp_outputFormat = default_to (JStr ''json_object'') (get_prop params ''outputFormat''),
        cp_temperature = default_to (JNum ''0.7'') (get_prop params ''temperature''),
        cp_reasoning = default_to (JObj [(''effort'', JStr ''none''), (''enabled'', JBool False)])
                         (get_prop params ''reasoning'')\<rparr>
       (emit (Invoked ''callOpenRouter'' (get_prop params ''model'')) st)"

section \<open>The local adapter (ollama.js)\<close>

text \<open>Lines 50 to 54 of \<^verbatim>\<open>callOllama\<close>: what it returns from the reply's message. Reading
  \<^verbatim>\<open>content\<close> of a missing message throws, and so does \<^verbatim>\<open>JSON.parse\<close> on bad text.\<close>

definition ollama_reply :: "world \<Rightarrow> bool \<Rightarrow> jsval \<Rightarrow> jsval \<Rightarrow> thrown + jsval" where
  "ollama_reply w returnWholeMessage outputFormat message =
     (if returnWholeMessage then Inr message
      else if nullish message then Inl TypeError
      else if outputFormat = JStr ''json_object'' then
        (case JSON_parse w (js_toString (get_prop message ''content'')) of
           None \<Rightarrow> Inl SyntaxError
         | Some parsed \<Rightarrow> Inr parsed)
      else Inr (get_prop message ''content''))"

text \<open>\<^verbatim>\<open>callOllama\<close>: one \<^verbatim>\<open>try\<close> whose handler returns null. The defaults of \<^verbatim>\<open>inputs\<close> and
  \<^verbatim>\<open>outputs\<close> are null; the caller's \<^verbatim>\<open>inputs\<close> is what it was when it is undefined.\<close>

definition callOllama :: "world \<Rightarrow> jsval \<Rightarrow> state \<Rightarrow> jsval outcome \<times> jsval \<times> state" where
  "callOllama w params st0 =
     (let outputFormat = default_to (JStr ''json_object'') (get_prop params ''outputFormat'');
          temperature = default_to (JNum ''0.7'') (get_prop params ''temperature'');
          model = default_to (JStr ''llama3.2'') (get_prop params ''model'');
          st = emit (Invoked ''callOllama'' (get_prop params ''model'')) st0
      in case createOllamaMessages w
                \<lparr>ma_role = get_prop params ''role'', ma_task = get_prop params ''task'',
                 ma_inputs = default_to JNull (get_prop params ''inputs''),
                 ma_outputs = default_to JNull (get_prop params ''outputs''),
                 ma_outputFormat = outputFormat,
                 ma_USE_JSON_SCHEMA = False,
                 ma_imageMessageBuilder = ollamaImageMessageBuilder\<rparr> of
           (Inl error, inputs) \<Rightarrow>
             (Returned JNull, if get_prop params ''inputs'' = JUndefined then JUndefined else inputs, st)
         | (Inr built, inputs) \<Rightarrow>
             (let request = \<lparr>or_model = model, or_messages = mr_messages built,
                             or_format = (if outputFormat = JStr ''json_object''
                                          then JStr ''json'' else JNull),
                             or_temperature = temperature\<rparr>;
                  st1 = emit (OllamaAPI model) st
              in case ollama_chat w (log st) request of
                   Inl error \<Rightarrow> (Returned JNull, inputs, st1)
                 | Inr message \<Rightarrow>
                     (case ollama_reply w (mr_returnWholeMessage built) outputFormat message of
                        Inl error \<Rightarrow> (Returned JNull, inputs, st1)
                      | Inr content \<Rightarrow> (Returned content, inputs, st1))))"

section \<open>The dispatcher (aiTask.js)\<close>

text \<open>\<^verbatim>\<open>Object.assign(target, source)\<close> for a source that is an object or an array. (That
  JavaScript lists integer-like keys first does not show in the model.)\<close>

definition Object_assign :: "(string \<times> jsval) list \<Rightarrow> jsval \<Rightarrow> (string \<times> jsval) list" where
  "Object_assign target source = fold (\<lambda>(k, v). AList.update k v) (Object_entries source) target"

text \<open>\<^verbatim>\<open>hashQuery\<close>. \<^verbatim>\<open>JSON.stringify\<close> yields undefined for undefined and functions, and
  the hash then throws; \<^verbatim>\<open>aiTask\<close> calls it on an object.\<close>

definition hashQuery :: "world \<Rightarrow> jsval \<Rightarrow> thrown + string" where
  "hashQuery w params =
     (case JSON_stringify params of
        None \<Rightarrow> Inl TypeError
      | Some s \<Rightarrow> Inr (sha256 w s))"

text \<open>The flat-cache store: \<^verbatim>\<open>cache.get\<close> and \<^verbatim>\<open>cache.set\<close> followed by \<^verbatim>\<open>cache.save\<close>
  (writing the file is taken to succeed).\<close>

definition cache_get :: "(string \<times> jsval) list \<Rightarrow> string \<Rightarrow> jsval" where
  "cache_get c key = (case map_of c key of None \<Rightarrow> JUndefined | Some v \<Rightarrow> v)"

definition cache_set :: "string \<Rightarrow> jsval \<Rightarrow> state \<Rightarrow> state" where
  "cache_set key v st = st\<lparr>cache := AList.update key v (cache st)\<rparr>"

text \<open>
  Lines 74 to 88: the request object and, for a list of models, the models that remain
  after \<^verbatim>\<open>shift\<close> took the first (\<^verbatim>\<open>shift\<close> of an empty list yields undefined and leaves
  the list empty).
\<close>

definition modelInput_of ::
  "jsval \<Rightarrow> jsval \<Rightarrow> jsval \<Rightarrow> jsval \<Rightarrow> jsval \<Rightarrow> (string \<times> jsval) list \<times> jsval list option" where
  "modelInput_of configOrRole task inputs outputs outputFormat =
     (let role = (if typeof configOrRole = ''string'' then configOrRole else JNull);
          modelInput = [(''role'', role), (''task'', task), (''inputs'', inputs),
                        (''outputs'', outputs), (''outputFormat'', outputFormat)]
      in if typeof configOrRole = ''object'' \<and> configOrRole \<noteq> JNull then
           (let assigned = Object_assign modelInput configOrRole
            in case get_prop (JObj assigned) ''model'' of
                 JArr models \<Rightarrow>
                   (AList.update ''model'' (case models of [] \<Rightarrow> JUndefined | m # ms \<Rightarrow> m) assigned,
                    Some (tl models))
               | _ \<Rightarrow> (assigned, None))
         else (modelInput, None))"

text \<open>\<^verbatim>\<open>modelInput.model && modelInput.model.includes("/")\<close>. An array has \<^verbatim>\<open>includes\<close>
  too; any other truthy value has not, and the call throws.\<close>

definition has_separator :: "jsval \<Rightarrow> thrown + bool" where
  "has_separator model =
     (if \<not> truthy model then Inr False
      else (case model of
              JStr s \<Rightarrow> Inr (CHR ''/'' \<in> set s)
            | JArr xs \<Rightarrow> Inr (JStr ''/'' \<in> set xs)
            | _ \<Rightarrow> Inl TypeError))"

definition is_callback :: "jsval \<Rightarrow> bool" where
  "is_callback provider = (truthy provider \<and> typeof provider = ''function'')"

definition gemini_selected :: "jsval \<Rightarrow> bool" where
  "gemini_selected provider = (\<not> truthy provider \<or> provider = JStr ''gemini'')"

text \<open>A provider callback, a function of the caller's: the world says what it does. It is
  taken to leave the request as it is.\<close>

definition call_provider ::
  "world \<Rightarrow> jsval \<Rightarrow> jsval \<Rightarrow> state \<Rightarrow> jsval outcome \<times> jsval \<times> state" where
  "call_provider w provider params st =
     (case provider of
        JFun f \<Rightarrow>
          (case provider_fn w f (log st) params of
             Inl error \<Rightarrow> (Thrown error, get_prop params ''inputs'', emit (ProviderFn f) st)
           | Inr v \<Rightarrow> (Returned v, get_prop params ''inputs'', emit (ProviderFn f) st))
      | _ \<Rightarrow> (Thrown TypeError, get_prop params ''inputs'', st))"

text \<open>\<^verbatim>\<open>if (responseContent === null) throw "Could not generate answer"\<close>.\<close>

definition null_check :: "jsval outcome \<times> jsval \<times> state \<Rightarrow> jsval outcome \<times> jsval \<times> state" where
  "null_check r =
     (case r of
        (Returned responseContent, inputs, st) \<Rightarrow>
          if responseContent = JNull
          then (Thrown (ThrownValue (JStr ''Could not generate answer'')), inputs, st)
          else r
      | _ \<Rightarrow> r)"

definition with_inputs :: "jsval \<Rightarrow> jsval outcome \<times> state \<Rightarrow> jsval outcome \<times> jsval \<times> state" where
  "with_inputs inputs r = (case r of (res, st) \<Rightarrow> (res, inputs, st))"

text \<open>
  Lines 101 to 117: the choice of the adapter and, off the local branch, the check for
  null. The result comes with \<^verbatim>\<open>modelInput.inputs\<close> as the adapter left it. When no branch
  is taken, \<^verbatim>\<open>responseContent\<close> is still the null it was initialised to.
\<close>

definition aiTask_dispatch ::
  "nat \<Rightarrow> world \<Rightarrow> (string \<times> jsval) list \<Rightarrow> jsval \<Rightarrow> state \<Rightarrow> jsval outcome \<times> jsval \<times> state" where
  "aiTask_dispatch n w modelInput localOnly st =
     (let params = JObj modelInput;
          provider = get_prop params ''provider'';
          model = get_prop params ''model'';
          inputs = get_prop params ''inputs''
      in if truthy localOnly then callOllama w params st
         else if is_callback provider then null_check (call_provider w provider params st)
         else
           (case has_separator model of
              Inl error \<Rightarrow> (Thrown error, inputs, st)
            | Inr True \<Rightarrow> null_check (callOpenRouter w params st)
            | Inr False \<Rightarrow>
                if gemini_selected provider
                then null_check (with_inputs inputs (callGemini n w (gemini_call_of params) st))
                else if provider = JStr ''openai'' then null_check (callOpenAI w params st)
                else null_check (Returned JNull, inputs, st)))"

text \<open>Lines 98 to 122: the \<^verbatim>\<open>try\<close> block. What the adapter returned is stored under the
  fingerprint and returned.\<close>

definition aiTask_try ::
  "nat \<Rightarrow> world \<Rightarrow> (string \<times> jsval) list \<Rightarrow> jsval \<Rightarrow> string \<Rightarrow> state
     \<Rightarrow> jsval outcome \<times> jsval \<times> state" where
  "aiTask_try n w modelInput localOnly hash st =
     (case aiTask_dispatch n w modelInput localOnly st of
        (Returned responseContent, inputs, st1) \<Rightarrow>
          (Returned responseContent, inputs, cache_set hash responseContent st1)
      | r \<Rightarrow> r)"

text \<open>
  \<^verbatim>\<open>aiTask\<close>. The handler of the \<^verbatim>\<open>try\<close> calls \<^verbatim>\<open>aiTask\<close> again with the remaining models
  whenever there is a list of them, the empty list too; the other arguments of that call
  are undefined. The fuel bounds these calls and the retries of the Gemini adapter.
\<close>

primrec aiTask ::
  "nat \<Rightarrow> world \<Rightarrow> jsval \<Rightarrow> jsval \<Rightarrow> jsval \<Rightarrow> jsval \<Rightarrow> jsval \<Rightarrow> jsval \<Rightarrow> state \<Rightarrow> jsval outcome \<times> state" where
  "aiTask 0 w configOrRole task inputs outputs outputFormat localOnly st = (OutOfFuel, st)"
| "aiTask (Suc n) w configOrRole task inputs outputs outputFormat localOnly st =
     (case modelInput_of configOrRole task inputs outputs
             (default_to (JStr ''json_object'') outputFormat) of
        (modelInput, remainingModels) \<Rightarrow>
          (case hashQuery w (JObj modelInput) of
             Inl error \<Rightarrow> (Thrown error, st)
           | Inr hash \<Rightarrow>
               if truthy (cache_get (cache st) hash) then (Returned (cache_get (cache st) hash), st)
               else
                 (case aiTask_try n w modelInput (default_to (JBool False) localOnly) hash st of
                    (Thrown error, inputs', st1) \<Rightarrow>
                      (case remainingModels of
                         Some models \<Rightarrow>
                           aiTask n w
                             (JObj (AList.update ''model'' (JArr models)
                                      (AList.update ''inputs'' inputs' modelInput)))
                             JUndefined JUndefined JUndefined JUndefined JUndefined st1
                       | None \<Rightarrow> (Returned JNull, st1))
                  | (r, inputs', st1) \<Rightarrow> (r, st1))))"

text \<open>\<^verbatim>\<open>aiTask\<close> called with a configuration object only.\<close>

definition aiTask_config :: "nat \<Rightarrow> world \<Rightarrow> jsval \<Rightarrow> state \<Rightarrow> jsval outcome \<times> state" where
  "aiTask_config n w config st =
     aiTask n w config JUndefined JUndefined JUndefined JUndefined JUndefined st"


section \<open>Scenarios\<close>

text \<open>
  Concrete worlds and requests, used to run the model. \<open>JSON_parse_known\<close> is
  \<^verbatim>\<open>JSON.parse\<close> on the texts that occur in them; every other text is a syntax error there.
  The digest is the identity on the serialisation.
\<close>

definition JSON_parse_known :: "string \<Rightarrow> jsval option" where
  \<open>JSON_parse_known = map_of
     [(''{"result":3}'', JObj [(''result'', JNum ''3'')]),
      (''null'', JNull), (''0'', JNum ''0''), (''"hello"'', JStr ''hello'')]\<close>

text \<open>No backend is reachable.\<close>

definition quiet_world :: world where
  "quiet_world =
     \<lparr>sha256 = (\<lambda>s. s),
      JSON_parse = JSON_parse_known,
      sharp_base64 = (\<lambda>img. Inl (Error ''Input file is missing'')),
      generateContent = (\<lambda>h r. Inl (Error ''fetch failed'')),
      chat_completions_create = (\<lambda>h r. Inl (Error ''fetch failed'')),
      ollama_chat = (\<lambda>h r. Inl (Error ''fetch failed'')),
      provider_fn = (\<lambda>f h params. Inl TypeError)\<rparr>"

text \<open>A fresh process with an empty cache.\<close>

definition state0 :: state where
  "state0 = \<lparr>cache = [], lastRateLimitedGeminiModelIndex = 0, log = []\<rparr>"

text \<open>The first model of the default list is rate limited; the others answer.\<close>

definition flash_limited :: world where
  "flash_limited = quiet_world\<lparr>generateContent :=
     (\<lambda>h r. if gr_model r = ''gemini-3-flash'' then Inl (FetchError (Some 429) None)
            else Inr (''hello'', JUndefined))\<rparr>"

definition greet :: jsval where
  "greet = JObj [(''task'', JStr ''Say hello''), (''inputs'', JObj []),
      (''outputs'', JStr ''a greeting''), (''outputFormat'', JStr ''text'')]"

text \<open>Every Gemini model answers with text that is not JSON.\<close>

definition unparsable :: world where
  "unparsable = quiet_world\<lparr>generateContent := (\<lambda>h r. Inr (''not json'', JUndefined))\<rparr>"

definition sum_request :: jsval where
  "sum_request = JObj [(''task'', JStr ''sum''),
      (''inputs'', JObj [(''a'', JNum ''1''), (''b'', JNum ''2'')]),
      (''outputs'', JObj [(''result'', JStr ''Number | sum'')]),
      (''outputFormat'', JStr ''json_object'')]"




text \<open>Every Gemini model is rate limited.\<close>

definition all_limited :: world where
  "all_limited = quiet_world\<lparr>generateContent := (\<lambda>h r. Inl (FetchError (Some 429) None))\<rparr>"

text \<open>The serialisation of the request \<open>greet\<close>, its fingerprint under the identity digest.\<close>

definition greet_fingerprint :: string where
  \<open>greet_fingerprint =
     ''{"role":null,"task":"Say hello","inputs":{},"outputs":"a greeting","outputFormat":"text"}''\<close>

text \<open>Gemini answers with the empty text.\<close>

definition empty_reply :: world where
  "empty_reply = quiet_world\<lparr>generateContent := (\<lambda>h r. Inr ([], JUndefined))\<rparr>"

text \<open>The local backend answers; the request names a model with a namespace.\<close>

definition local_world :: world where
  "local_world = quiet_world\<lparr>ollama_chat :=
     (\<lambda>h r. Inr (JObj [(''role'', JStr ''assistant''), (''content'', JStr ''hello'')]))\<rparr>"

definition local_namespaced :: jsval where
  "local_namespaced = JObj [(''task'', JStr ''Say hello''), (''inputs'', JObj []),
      (''outputs'', JStr ''a greeting''), (''outputFormat'', JStr ''text''),
      (''model'', JStr ''vendor/model'')]"

definition openai_namespaced :: "(string \<times> jsval) list" where
  "openai_namespaced = [(''role'', JNull), (''task'', JStr ''Say hello''), (''inputs'', JObj []),
      (''outputs'', JStr ''a greeting''), (''outputFormat'', JStr ''text''),
      (''provider'', JStr ''openai''), (''model'', JStr ''vendor/model'')]"

text \<open>A list of one model, to be run with no backend reachable.\<close>

definition one_namespaced :: jsval where
  "one_namespaced = JObj [(''task'', JStr ''sum''), (''inputs'', JObj []),
      (''outputs'', JObj [(''result'', JStr ''Number | sum'')]),
      (''model'', JArr [JStr ''x/A''])]"







section \<open>Observations on a run\<close>

text \<open>The store a call leaves behind, the trace apart.\<close>

definition same_store :: "state \<Rightarrow> state \<Rightarrow> bool" where
  "same_store st st' = (cache st' = cache st \<and>
     lastRateLimitedGeminiModelIndex st' = lastRateLimitedGeminiModelIndex st)"

text \<open>The Gemini models a trace contacted, in order.\<close>

definition contacted :: "event list \<Rightarrow> string list" where
  "contacted evs = concat (map (\<lambda>e. case e of GeminiAPI m \<Rightarrow> [m] | _ \<Rightarrow> []) evs)"

definition only_contacts :: "string \<Rightarrow> state \<Rightarrow> state \<Rightarrow> bool" where
  "only_contacts m st st' = (set (contacted (log st')) \<subseteq> insert m (set (contacted (log st))))"



text \<open>The fingerprint \<^verbatim>\<open>aiTask\<close> computes for its arguments.\<close>

definition fingerprint ::
  "world \<Rightarrow> jsval \<Rightarrow> jsval \<Rightarrow> jsval \<Rightarrow> jsval \<Rightarrow> jsval \<Rightarrow> thrown + string" where
  "fingerprint w configOrRole task inputs outputs outputFormat =
     hashQuery w (JObj (fst (modelInput_of configOrRole task inputs outputs
                               (default_to (JStr ''json_object'') outputFormat))))"

text \<open>The request object of a configuration that gives a task, empty inputs, outputs and a
  model, and leaves the rest to the defaults.\<close>

definition request_for :: "jsval \<Rightarrow> jsval \<Rightarrow> jsval \<Rightarrow> (string \<times> jsval) list" where
  "request_for task outputs model =
     [(''role'', JNull), (''task'', task), (''inputs'', JObj []), (''outputs'', outputs),
      (''outputFormat'', JStr ''json_object''), (''model'', model)]"




section \<open>Properties of the Gemini adapter\<close>

lemma same_store_refl [simp]: "same_store st st"
  by (simp add: same_store_def)

lemma same_store_emit [simp]: "same_store st (emit e st') = same_store st st'"
  by (simp add: same_store_def emit_def)

lemma same_store_emit_left [simp]: "same_store (emit e st) st' = same_store st st'"
  by (simp add: same_store_def emit_def)

lemma same_store_trans: "same_store a b \<Longrightarrow> same_store b c \<Longrightarrow> same_store a c"
  by (simp add: same_store_def)

lemma gemini_output_store: "gemini_output w p t u st = (r, st') \<Longrightarrow> same_store st st'"
  by (auto simp: gemini_output_def split: option.splits if_splits)

lemma gemini_attempt_store: "gemini_attempt w p st = (r, p', st') \<Longrightarrow> same_store st st'"
  by (auto simp: gemini_attempt_def Let_def split: jsval.splits sum.splits prod.splits if_splits
           dest!: gemini_output_store)

lemma callGeminiModel_store: "same_store st (snd (callGeminiModel n w p st))"
proof (induction n arbitrary: p st)
  case 0
  show ?case by simp
next
  case (Suc n)
  obtain r p' st' where a: "gemini_attempt w (gemini_defaults p) st = (r, p', st')"
    by (cases "gemini_attempt w (gemini_defaults p) st") auto
  have s: "same_store st st'"
    using gemini_attempt_store [OF a] .
  show ?case
  proof (cases r)
    case (Returned v)
    with a s show ?thesis by simp
  next
    case OutOfFuel
    with a s show ?thesis by simp
  next
    case (Thrown e)
    have "same_store st' (snd (callGeminiModel n w q (emit ev st')))" for q ev
      using Suc [of "emit ev st'" q] by (simp add: same_store_def emit_def)
    with a s Thrown show ?thesis
      by (auto simp: same_store_def Let_def)
  qed
qed


lemma contacted_append [simp]: "contacted (xs @ ys) = contacted xs @ contacted ys"
  by (simp add: contacted_def)

lemma contacted_single [simp]:
  "contacted [GeminiAPI m] = [m]" "contacted [ParsedResponse t] = []"
  "contacted [Slept d] = []" "contacted [Invoked a v] = []"
  by (simp_all add: contacted_def)

lemma only_contacts_refl [simp]: "only_contacts m st st"
  by (auto simp: only_contacts_def)




lemma gemma_task_model [simp]: "gp_model (gemma_task p m) = gp_model p"
  by (simp add: gemma_task_def)


lemma gemini_defaults_model [simp]: "gp_model p = JStr m \<Longrightarrow> gp_model (gemini_defaults p) = JStr m"
  by (simp add: gemini_defaults_def default_to_def)


lemma callGemini_walk_store: "same_store st (snd (callGemini_walk n w c i st))"
proof (induction n w c i st rule: callGemini_walk.induct)
  case (1 n w c i st)
  show ?case
  proof (cases "i < length geminiModels")
    case False
    then show ?thesis by (simp add: callGemini_walk.simps)
  next
    case True
    obtain r st1 where a: "callGeminiModel n w (model_params c (JStr (geminiModels ! i))) st = (r, st1)"
      by (cases "callGeminiModel n w (model_params c (JStr (geminiModels ! i))) st") auto
    have s: "same_store st st1"
      using callGeminiModel_store [of st n w "model_params c (JStr (geminiModels ! i))"] a by simp
    show ?thesis
    proof (cases r)
      case (Thrown e)
      show ?thesis
      proof (cases "isRateLimitError e")
        case True
        with "1.IH" [OF \<open>i < length geminiModels\<close> a [symmetric, unfolded Thrown] refl True] s a Thrown \<open>i < length geminiModels\<close>
        show ?thesis
          by (subst callGemini_walk.simps) (auto intro: same_store_trans)
      next
        case False
        with a s Thrown \<open>i < length geminiModels\<close> show ?thesis
          by (subst callGemini_walk.simps) simp
      qed
    next
      case (Returned v)
      with a s True show ?thesis by (subst callGemini_walk.simps) simp
    next
      case OutOfFuel
      with a s True show ?thesis by (subst callGemini_walk.simps) simp
    qed
  qed
qed

lemma callGemini_store: "same_store st (snd (callGemini n w c st))"
proof (induction n arbitrary: st)
  case 0
  show ?case by simp
next
  case (Suc n)
  let ?st = "emit (Invoked ''callGemini'' (gc_model c)) st"
  have w: "same_store st (snd (callGemini_walk n w c i st2))" if "same_store st st2" for i st2
    using callGemini_walk_store [of st2 n w c i] that by (auto intro: same_store_trans)
  show ?case
  proof (cases "pinned c")
    case False
    then show ?thesis using w [of ?st] by (simp add: Let_def)
  next
    case True
    obtain r st1 where a: "callGeminiModel n w (model_params c (gc_model c)) ?st = (r, st1)"
      by (cases "callGeminiModel n w (model_params c (gc_model c)) ?st") auto
    have s: "same_store st st1"
      using callGeminiModel_store [of ?st n w "model_params c (gc_model c)"] a by simp
    have r: "same_store st (snd (callGemini n w c (emit ev st1)))" for ev
      using Suc [of "emit ev st1"] s by (auto intro: same_store_trans)
    show ?thesis
      using True a s r w [OF s]
      by (cases r) (auto simp: Let_def)
  qed
qed










text \<open>
  Claim C6 (rate-limit cursor). The claim says that a RateLimited answer met while walking
  the default priority list is remembered in process-wide state, so that the next call
  starts its walk at that index. The walk does advance to the next candidate, but the
  module variable \<^verbatim>\<open>lastRateLimitedGeminiModelIndex\<close> is only ever read: the loop
  increments its local copy. Here the first model is rate limited and the second answers;
  the cursor is still 0 afterwards, and a second call in the same process contacts the
  rate-limited first model again.
\<close>

theorem callGemini_cursor_not_persisted: "snd (callGemini 2 flash_limited (gemini_call_of greet) state0) =
     \<lparr>cache = [], lastRateLimitedGeminiModelIndex = 0,
      log = [Invoked ''callGemini'' JNull, GeminiAPI ''gemini-3-flash'', GeminiAPI ''gemini-2.5-flash'']\<rparr>
   \<and> log (snd (callGemini 2 flash_limited (gemini_call_of greet)
       (snd (callGemini 2 flash_limited (gemini_call_of greet) state0)))) =
      [Invoked ''callGemini'' JNull, GeminiAPI ''gemini-3-flash'', GeminiAPI ''gemini-2.5-flash'',
       Invoked ''callGemini'' JNull, GeminiAPI ''gemini-3-flash'', GeminiAPI ''gemini-2.5-flash'']"
  by code_simp

text \<open>
  Claim C4 (malformed-output bound). The claim says that a backend that always returns
  unparsable text for a JSON request is asked four times (one attempt and three retries)
  before the call gives up. The retry counter of \<^verbatim>\<open>callGeminiModel\<close> sits in the handler
  of a \<^verbatim>\<open>try\<close> that holds \<^verbatim>\<open>return output\<close> only; \<^verbatim>\<open>JSON.parse\<close> runs before it, so
  its SyntaxError goes to the outer handler, which returns null. There is one request and
  one parse attempt, with fuel left for retries, in \<^verbatim>\<open>callGemini\<close> and so in \<^verbatim>\<open>aiTask\<close>.
\<close>

theorem callGemini_malformed_output_single_attempt: "callGemini 5 unparsable (gemini_call_of sum_request) state0 =
    (Returned JNull, state0\<lparr>log := [Invoked ''callGemini'' JNull, GeminiAPI ''gemini-3-flash'', ParsedResponse ''not json'']\<rparr>)
   \<and> aiTask_config 5 unparsable sum_request state0 =
    (Returned JNull, state0\<lparr>log := [Invoked ''callGemini'' JNull, GeminiAPI ''gemini-3-flash'', ParsedResponse ''not json'']\<rparr>)"
  by code_simp





section \<open>Properties of the schema compiler\<close>











section \<open>The dispatcher\<close>

text \<open>One attempt on a model with a namespace, for a request with empty inputs.\<close>

lemma modelInput_of_config:
  "modelInput_of (JObj [(''task'', task), (''inputs'', JObj []), (''outputs'', outputs),
                        (''model'', JArr (m # ms))])
       JUndefined JUndefined JUndefined (JStr ''json_object'')
   = (request_for task outputs m, Some ms)"
  by (simp add: modelInput_of_def Object_assign_def Object_entries_def request_for_def)


lemma hashQuery_obj: "hashQuery w (JObj kvs) = Inr (sha256 w (the (JSON_stringify (JObj kvs))))"
  by (simp add: hashQuery_def JSON_stringify_def)

lemma messages_no_inputs:
  assumes "\<not> nullish outputs" and "\<not> isl (createJSONSchema w outputs)"
  shows "\<exists>built. createOllamaMessages w
           \<lparr>ma_role = JNull, ma_task = task, ma_inputs = JObj [], ma_outputs = outputs,
            ma_outputFormat = JStr ''json_object'', ma_USE_JSON_SCHEMA = True,
            ma_imageMessageBuilder = openAIImageMessageBuilder\<rparr> = (Inr built, JObj [])"
proof -
  obtain schema where s: "createJSONSchema w outputs = Inr schema"
    using assms(2) by (cases "createJSONSchema w outputs") simp_all
  have t: "take_images w (JObj []) = (Inr [], JObj [])"
    by (simp add: take_images_def nullish_def)
  have p: "\<exists>prompt. outputs_prompt w task (JObj []) outputs (JStr ''json_object'') True = Inr prompt"
    using assms(1) s by (simp add: outputs_prompt_def nullish_def Let_def)
  have m: "\<And>userMessage. message_list [] [] (JObj []) userMessage
             = (Inr (filter truthy [userMessage], False), JObj [])"
    by (simp add: message_list_def)
  from p obtain prompt where
    "outputs_prompt w task (JObj []) outputs (JStr ''json_object'') True = Inr prompt" ..
  then show ?thesis
    using assms(1) t m by (simp add: createOllamaMessages_def Let_def)
qed

lemma callOpenRouter_fails:
  assumes "\<not> nullish outputs" and "\<not> isl (createJSONSchema w outputs)"
      and "\<And>h r. cr_model r = JStr M \<Longrightarrow> isl (chat_completions_create w h r)"
  shows "callOpenRouter w (JObj (request_for task outputs (JStr M))) st
         = (Returned JNull, JObj [],
            st\<lparr>log := log st @ [Invoked ''callOpenRouter'' (JStr M),
                                 ChatAPI (Some ''https://openrouter.ai/api/v1'') (JStr M)]\<rparr>)"
proof -
  obtain built where b: "createOllamaMessages w
           \<lparr>ma_role = JNull, ma_task = task, ma_inputs = JObj [], ma_outputs = outputs,
            ma_outputFormat = JStr ''json_object'', ma_USE_JSON_SCHEMA = True,
            ma_imageMessageBuilder = openAIImageMessageBuilder\<rparr> = (Inr built, JObj [])"
    using messages_no_inputs [OF assms(1,2)] by blast
  have f: "\<And>h r x. chat_completions_create w h r = Inr x \<Longrightarrow> cr_model r \<noteq> JStr M"
  proof
    fix h r x
    assume "chat_completions_create w h r = Inr x" and "cr_model r = JStr M"
    then show False using assms(3) [of r h] by simp
  qed
  show ?thesis
    by (auto simp: callOpenRouter_def callOpenAI_client_def request_for_def default_to_def
                   Let_def b emit_def
             split: sum.splits dest!: f)
qed


lemma dispatch_request_for:
  assumes "CHR ''/'' \<in> set M"
  shows "aiTask_dispatch n w (request_for task outputs (JStr M)) (JBool False) st
         = null_check (callOpenRouter w (JObj (request_for task outputs (JStr M))) st)"
proof -
  have "M \<noteq> []" using assms by auto
  then show ?thesis
    using assms
    by (simp add: aiTask_dispatch_def Let_def request_for_def is_callback_def has_separator_def)
qed

lemma aiTask_next_model:
  assumes "CHR ''/'' \<in> set M"
      and "\<not> nullish outputs" and "\<not> isl (createJSONSchema w outputs)"
      and "\<And>h r. cr_model r = JStr M \<Longrightarrow> isl (chat_completions_create w h r)"
      and "cache st = []"
      and "modelInput_of config JUndefined JUndefined JUndefined (JStr ''json_object'')
           = (request_for task outputs (JStr M), Some ms)"
  shows "aiTask_config (Suc n) w config st
         = aiTask_config n w
             (JObj (AList.update ''model'' (JArr ms)
                      (AList.update ''inputs'' (JObj []) (request_for task outputs (JStr M)))))
             (st\<lparr>log := log st @ [Invoked ''callOpenRouter'' (JStr M),
                                  ChatAPI (Some ''https://openrouter.ai/api/v1'') (JStr M)]\<rparr>)"
proof -
  have t: "aiTask_try n w (request_for task outputs (JStr M)) (JBool False) hash st
           = (Thrown (ThrownValue (JStr ''Could not generate answer'')), JObj [],
              st\<lparr>log := log st @ [Invoked ''callOpenRouter'' (JStr M),
                                  ChatAPI (Some ''https://openrouter.ai/api/v1'') (JStr M)]\<rparr>)" for hash
    by (simp add: aiTask_try_def dispatch_request_for [OF assms(1)]
                  callOpenRouter_fails [OF assms(2,3,4)] null_check_def)
  show ?thesis
    by (simp add: aiTask_config_def assms(5,6) hashQuery_obj cache_get_def t default_to_def)
qed


text \<open>With no backend reachable, a request without a model does not come back from
  \<^verbatim>\<open>callGemini\<close> with anything but null, and a request whose list of models is empty is
  sent again and again.\<close>

lemma gemini_attempt_unreachable:
  "gemini_attempt quiet_world p st = (a, p', st') \<Longrightarrow> \<exists>e. a = Thrown e \<and> status e = None"
  by (auto simp: gemini_attempt_def Let_def quiet_world_def split: if_splits jsval.splits)

lemma callGeminiModel_unreachable:
  "fst (callGeminiModel n quiet_world p st) = OutOfFuel
   \<or> fst (callGeminiModel n quiet_world p st) = Returned JNull"
proof (cases n)
  case 0
  then show ?thesis by simp
next
  case (Suc k)
  obtain a p' st' where g: "gemini_attempt quiet_world (gemini_defaults p) st = (a, p', st')"
    by (cases "gemini_attempt quiet_world (gemini_defaults p) st")
  then obtain e where "a = Thrown e" and "status e = None"
    using gemini_attempt_unreachable by blast
  then show ?thesis
    using Suc g by simp
qed

lemma callGemini_walk_unreachable:
  "fst (callGemini_walk n quiet_world c 0 st) = OutOfFuel
   \<or> fst (callGemini_walk n quiet_world c 0 st) = Returned JNull"
proof -
  let ?r = "callGeminiModel n quiet_world (model_params c (JStr (geminiModels ! 0))) st"
  have "fst ?r = OutOfFuel \<or> fst ?r = Returned JNull"
    by (rule callGeminiModel_unreachable)
  then show ?thesis
    by (cases ?r) (auto simp: callGemini_walk.simps [of n quiet_world c 0 st] geminiModels_def)
qed

lemma callGemini_unreachable:
  assumes "\<not> pinned c" and "lastRateLimitedGeminiModelIndex st = 0"
  shows "fst (callGemini n quiet_world c st) = OutOfFuel
         \<or> fst (callGemini n quiet_world c st) = Returned JNull"
proof (cases n)
  case 0
  then show ?thesis by simp
next
  case (Suc k)
  then show ?thesis
    using assms callGemini_walk_unreachable [of k c "emit (Invoked ''callGemini'' (gc_model c)) st"]
    by (simp add: Let_def emit_def)
qed

lemma aiTask_empty_list:
  "cache st = [] \<Longrightarrow> lastRateLimitedGeminiModelIndex st = 0 \<Longrightarrow>
   fst (aiTask_config n quiet_world (JObj (request_for task outputs (JArr []))) st) = OutOfFuel"
proof (induction n arbitrary: st)
  case 0
  show ?case by (simp add: aiTask_config_def)
next
  case (Suc n)
  let ?mi = "request_for task outputs JUndefined"
  let ?c = "gemini_call_of (JObj ?mi)"
  have m: "modelInput_of (JObj (request_for task outputs (JArr [])))
             JUndefined JUndefined JUndefined (JStr ''json_object'') = (?mi, Some [])"
    by (simp add: modelInput_of_def Object_assign_def Object_entries_def request_for_def)
  have u: "AList.update ''model'' (JArr []) (AList.update ''inputs'' (JObj []) ?mi)
           = request_for task outputs (JArr [])"
    by (simp add: request_for_def)
  have p: "\<not> pinned ?c"
    by (simp add: pinned_def gemini_call_of_def request_for_def default_to_def)
  have d: "aiTask_dispatch n quiet_world ?mi (JBool False) st
           = null_check (with_inputs (JObj []) (callGemini n quiet_world ?c st))"
    by (simp add: aiTask_dispatch_def Let_def request_for_def is_callback_def has_separator_def
                  gemini_selected_def)
  obtain r st1 where g: "callGemini n quiet_world ?c st = (r, st1)"
    by (cases "callGemini n quiet_world ?c st")
  have s: "same_store st st1"
    using callGemini_store [of st n quiet_world ?c] g by simp
  then have c1: "cache st1 = []" and l1: "lastRateLimitedGeminiModelIndex st1 = 0"
    using Suc.prems by (simp_all add: same_store_def)
  from callGemini_unreachable [OF p Suc.prems(2), of n] g
  consider "r = OutOfFuel" | "r = Returned JNull" by auto
  then show ?case
  proof cases
    case 1
    then show ?thesis
      by (simp add: aiTask_config_def default_to_def m hashQuery_obj cache_get_def Suc.prems
                    aiTask_try_def d g with_inputs_def null_check_def)
  next
    case 2
    have "fst (aiTask_config n quiet_world (JObj (request_for task outputs (JArr []))) st1) = OutOfFuel"
      using Suc.IH [OF c1 l1] .
    then show ?thesis
      using 2
      by (simp add: aiTask_config_def default_to_def m hashQuery_obj cache_get_def Suc.prems
                    aiTask_try_def d g with_inputs_def null_check_def u)
  qed
qed

lemma aiTask_exhausted_array:
  "fst (aiTask_config n quiet_world one_namespaced state0) = OutOfFuel"
proof (cases n)
  case 0
  then show ?thesis by (simp add: aiTask_config_def)
next
  case (Suc k)
  have a: "CHR ''/'' \<in> set ''x/A''" by simp
  have o: "\<not> nullish (JObj [(''result'', JStr ''Number | sum'')])"
    by (simp add: nullish_def)
  have s: "\<not> isl (createJSONSchema quiet_world (JObj [(''result'', JStr ''Number | sum'')]))"
    by code_simp
  have f: "\<And>h r. cr_model r = JStr ''x/A'' \<Longrightarrow> isl (chat_completions_create quiet_world h r)"
    by (simp add: quiet_world_def)
  have e: "cache state0 = []" by (simp add: state0_def)
  have u: "AList.update ''model'' (JArr [])
             (AList.update ''inputs'' (JObj [])
                (request_for (JStr ''sum'') (JObj [(''result'', JStr ''Number | sum'')]) (JStr ''x/A'')))
           = request_for (JStr ''sum'') (JObj [(''result'', JStr ''Number | sum'')]) (JArr [])"
    by (simp add: request_for_def)
  have 1: "aiTask_config (Suc k) quiet_world
             (JObj [(''task'', JStr ''sum''), (''inputs'', JObj []),
                    (''outputs'', JObj [(''result'', JStr ''Number | sum'')]),
                    (''model'', JArr [JStr ''x/A''])]) state0
           = aiTask_config k quiet_world
               (JObj (AList.update ''model'' (JArr [])
                  (AList.update ''inputs'' (JObj [])
                     (request_for (JStr ''sum'') (JObj [(''result'', JStr ''Number | sum'')])
                        (JStr ''x/A'')))))
               (state0\<lparr>log := log state0 @ [Invoked ''callOpenRouter'' (JStr ''x/A''),
                    ChatAPI (Some ''https://openrouter.ai/api/v1'') (JStr ''x/A'')]\<rparr>)"
    by (rule aiTask_next_model [OF a o s f e modelInput_of_config])
  show ?thesis
    unfolding Suc one_namespaced_def 1 u
    by (rule aiTask_empty_list) (simp_all add: state0_def)
qed

text \<open>
  Claim C1 (null on failure). The claim says that \<^verbatim>\<open>aiTask\<close> returns a payload or null, and
  null when the candidates are exhausted. \<^verbatim>\<open>callGemini\<close> has no \<^verbatim>\<open>return\<close> after the loop
  over the default list, so when every model of the list is rate limited it yields
  undefined. The check \<^verbatim>\<open>responseContent === null\<close> lets undefined through: \<^verbatim>\<open>aiTask\<close>
  stores undefined under the fingerprint and returns it. Nothing is thrown, but the result
  is neither a payload nor null. And a list of models that is exhausted does not end the
  call: the handler tests \<^verbatim>\<open>if (remainingModels)\<close>, which the empty list passes, so
  \<^verbatim>\<open>aiTask\<close> calls itself with the empty list for as long as the attempt on the default
  list fails. With no backend reachable, the call for a list of one model does not
  return, whatever the fuel.
\<close>

theorem aiTask_exhausted_default_list: "aiTask_config 3 all_limited greet state0 =
    (Returned JUndefined,
     \<lparr>cache = [(greet_fingerprint, JUndefined)], lastRateLimitedGeminiModelIndex = 0,
      log = [Invoked ''callGemini'' JNull, GeminiAPI ''gemini-3-flash'',
             GeminiAPI ''gemini-2.5-flash'', GeminiAPI ''gemini-2.5-flash-lite'']\<rparr>)
   \<and> fst (aiTask_config n quiet_world one_namespaced state0) = OutOfFuel"
proof
  show "aiTask_config 3 all_limited greet state0 =
    (Returned JUndefined,
     \<lparr>cache = [(greet_fingerprint, JUndefined)], lastRateLimitedGeminiModelIndex = 0,
      log = [Invoked ''callGemini'' JNull, GeminiAPI ''gemini-3-flash'',
             GeminiAPI ''gemini-2.5-flash'', GeminiAPI ''gemini-2.5-flash-lite'']\<rparr>)"
    by code_simp
  show "fst (aiTask_config n quiet_world one_namespaced state0) = OutOfFuel"
    by (rule aiTask_exhausted_array)
qed

text \<open>
  Claim C8 (cache write on success only). The claim says that a failed backend result is
  never written to the cache. The check for null that throws past \<^verbatim>\<open>cache.set\<close> sits in
  the branch of the remote adapters only. With \<^verbatim>\<open>localOnly\<close> set and the local backend
  unreachable, \<^verbatim>\<open>callOllama\<close> returns null, and \<^verbatim>\<open>aiTask\<close> stores null under the
  fingerprint before it returns it.
\<close>

theorem aiTask_local_failure_cached: \<open>aiTask 3 quiet_world (JStr ''You are helpful'') (JStr ''Say hello'') (JObj [])
       (JStr ''a greeting'') (JStr ''text'') (JBool True) state0 =
    (Returned JNull,
     \<lparr>cache = [(''{"role":"You are helpful","task":"Say hello","inputs":{},"outputs":"a greeting","outputFormat":"text"}'', JNull)],
      lastRateLimitedGeminiModelIndex = 0,
      log = [Invoked ''callOllama'' JUndefined, OllamaAPI (JStr ''llama3.2'')]\<rparr>)\<close>
  by code_simp

text \<open>
  Claim C2, as stated, fails: the test for a hit is \<^verbatim>\<open>if (cachedResponse)\<close>, the truth value
  of the stored payload. Gemini answers the text request \<open>greet\<close> with the empty text;
  \<^verbatim>\<open>aiTask\<close> stores it under the fingerprint and returns it. A second call with the same
  request finds the entry, takes it for a miss and contacts the backend again.
\<close>

theorem aiTask_cached_empty_text_counterexample:
  "aiTask_config 3 empty_reply greet state0 =
     (Returned (JStr []),
      \<lparr>cache = [(greet_fingerprint, JStr [])], lastRateLimitedGeminiModelIndex = 0,
       log = [Invoked ''callGemini'' JNull, GeminiAPI ''gemini-3-flash'']\<rparr>)
   \<and> fingerprint empty_reply greet JUndefined JUndefined JUndefined JUndefined = Inr greet_fingerprint
   \<and> log (snd (aiTask_config 3 empty_reply greet
        \<lparr>cache = [(greet_fingerprint, JStr [])], lastRateLimitedGeminiModelIndex = 0,
         log = [Invoked ''callGemini'' JNull, GeminiAPI ''gemini-3-flash'']\<rparr>)) =
      [Invoked ''callGemini'' JNull, GeminiAPI ''gemini-3-flash'',
       Invoked ''callGemini'' JNull, GeminiAPI ''gemini-3-flash'']"
  by code_simp

text \<open>
  Claim C2 (cache short-circuit), amended. When the cache holds, under the fingerprint \<open>F\<close>
  of the request, a payload that JavaScript takes for true (anything but undefined, null,
  false, 0, NaN and the empty string), \<^verbatim>\<open>aiTask\<close> returns that payload and leaves the state
  as it was: the cache is not written and the trace gets no event, so no adapter is
  invoked and no backend contacted, whatever the world and the \<^verbatim>\<open>localOnly\<close> flag.
\<close>

theorem aiTask_cache_hit:
  "fingerprint w configOrRole task inputs outputs outputFormat = Inr F \<Longrightarrow>
   truthy (cache_get (cache st) F) \<Longrightarrow>
   aiTask (Suc n) w configOrRole task inputs outputs outputFormat localOnly st
     = (Returned (cache_get (cache st) F), st)"
  by (cases "modelInput_of configOrRole task inputs outputs
                (default_to (JStr ''json_object'') outputFormat)")
     (simp add: fingerprint_def)

text \<open>The theorem at the request \<open>greet\<close>, after a first call has stored the answer
  \<open>hello\<close>: the second call returns it, and the trace is that of the first call.\<close>

theorem aiTask_cache_hit_witness:
  "fingerprint flash_limited greet JUndefined JUndefined JUndefined JUndefined = Inr greet_fingerprint
   \<and> truthy (cache_get [(greet_fingerprint, JStr ''hello'')] greet_fingerprint)
   \<and> aiTask_config 3 flash_limited greet
       \<lparr>cache = [(greet_fingerprint, JStr ''hello'')], lastRateLimitedGeminiModelIndex = 0,
        log = [Invoked ''callGemini'' JNull, GeminiAPI ''gemini-3-flash'', GeminiAPI ''gemini-2.5-flash'']\<rparr>
     = (Returned (JStr ''hello''),
        \<lparr>cache = [(greet_fingerprint, JStr ''hello'')], lastRateLimitedGeminiModelIndex = 0,
        log = [Invoked ''callGemini'' JNull, GeminiAPI ''gemini-3-flash'', GeminiAPI ''gemini-2.5-flash'']\<rparr>)"
proof -
  let ?st = "\<lparr>cache = [(greet_fingerprint, JStr ''hello'')], lastRateLimitedGeminiModelIndex = 0,
        log = [Invoked ''callGemini'' JNull, GeminiAPI ''gemini-3-flash'', GeminiAPI ''gemini-2.5-flash'']\<rparr>"
  have f: "fingerprint flash_limited greet JUndefined JUndefined JUndefined JUndefined = Inr greet_fingerprint"
    by code_simp
  have t: "truthy (cache_get (cache ?st) greet_fingerprint)"
    by (simp add: cache_get_def)
  have c: "cache_get (cache ?st) greet_fingerprint = JStr ''hello''"
    by (simp add: cache_get_def)
  have s: "Suc 2 = 3" by simp
  from aiTask_cache_hit [OF f t, of 2 JUndefined] f t c show ?thesis
    unfolding s aiTask_config_def by simp
qed

text \<open>
  Claim C3, as stated, fails: \<^verbatim>\<open>localOnly\<close> is tested first, then a provider callback, and
  the separator only after them. With \<^verbatim>\<open>localOnly\<close> set, the request for the model
  \<open>vendor/model\<close> goes to \<^verbatim>\<open>callOllama\<close>, and the local backend is asked for that model.
\<close>

theorem aiTask_local_namespaced_counterexample: \<open>aiTask 3 local_world local_namespaced JUndefined JUndefined JUndefined JUndefined (JBool True) state0 =
    (Returned (JStr ''hello''),
     \<lparr>cache = [(''{"role":null,"task":"Say hello","inputs":{},"outputs":"a greeting","outputFormat":"text","model":"vendor/model"}'', JStr ''hello'')],
      lastRateLimitedGeminiModelIndex = 0,
      log = [Invoked ''callOllama'' (JStr ''vendor/model''), OllamaAPI (JStr ''vendor/model'')]\<rparr>)\<close>
  by code_simp

text \<open>
  Claim C3 (namespace routing), amended. When \<^verbatim>\<open>localOnly\<close> is not set and \<^verbatim>\<open>provider\<close> is
  not a callback, a request whose model is a string that contains the separator goes to
  \<^verbatim>\<open>callOpenRouter\<close>, whatever the provider id and the other fields of the request.
\<close>

theorem aiTask_dispatch_namespaced:
  "\<not> truthy localOnly \<Longrightarrow> \<not> is_callback (get_prop (JObj modelInput) ''provider'') \<Longrightarrow>
   get_prop (JObj modelInput) ''model'' = JStr m \<Longrightarrow> CHR ''/'' \<in> set m \<Longrightarrow>
   aiTask_dispatch n w modelInput localOnly st = null_check (callOpenRouter w (JObj modelInput) st)"
  by (auto simp: aiTask_dispatch_def has_separator_def Let_def)

text \<open>The theorem at a request for \<open>vendor/model\<close> with the provider id \<open>openai\<close>: the
  aggregator is asked, and its failure is the thrown null.\<close>

theorem aiTask_dispatch_namespaced_witness:
  "\<not> truthy (JBool False) \<and> \<not> is_callback (get_prop (JObj openai_namespaced) ''provider'')
   \<and> get_prop (JObj openai_namespaced) ''model'' = JStr ''vendor/model''
   \<and> CHR ''/'' \<in> set ''vendor/model''
   \<and> aiTask_dispatch 3 quiet_world openai_namespaced (JBool False) state0
       = null_check (callOpenRouter quiet_world (JObj openai_namespaced) state0)
   \<and> aiTask_dispatch 3 quiet_world openai_namespaced (JBool False) state0
       = (Thrown (ThrownValue (JStr ''Could not generate answer'')), JObj [],
          state0\<lparr>log := [Invoked ''callOpenRouter'' (JStr ''vendor/model''),
                          ChatAPI (Some ''https://openrouter.ai/api/v1'') (JStr ''vendor/model'')]\<rparr>)"
proof -
  have l: "\<not> truthy (JBool False)" by simp
  have p: "\<not> is_callback (get_prop (JObj openai_namespaced) ''provider'')" by code_simp
  have m: "get_prop (JObj openai_namespaced) ''model'' = JStr ''vendor/model''" by code_simp
  have s: "CHR ''/'' \<in> set ''vendor/model''" by simp
  have r: "null_check (callOpenRouter quiet_world (JObj openai_namespaced) state0)
       = (Thrown (ThrownValue (JStr ''Could not generate answer'')), JObj [],
          state0\<lparr>log := [Invoked ''callOpenRouter'' (JStr ''vendor/model''),
                          ChatAPI (Some ''https://openrouter.ai/api/v1'') (JStr ''vendor/model'')]\<rparr>)"
    by code_simp
  from aiTask_dispatch_namespaced [OF l p m s, of 3 quiet_world state0] p m r show ?thesis
    by simp
qed




section \<open>The message builder\<close>








end
